theory Spec2Isabelle
  imports Complex_Main
begin

section \<open>Python values used by backend/main.py\<close>

subsection \<open>Exceptions\<close>

text \<open>
  An exception is kept with what the handlers of main.py read of it: its message
  (\<open>str(e)\<close>), and for FastAPI's \<open>HTTPException\<close> the status code and the detail.
\<close>

datatype exn = Exception string | HTTPException nat string

subsection \<open>Strings\<close>

text \<open>
  A Python \<open>str\<close> is a sequence of code points; a character of the model is a code point
  below 256. \<open>is_space\<close> is \<open>str.isspace\<close> on that range: tab, line feed, vertical tab,
  form feed, carriage return, the separators 28 to 31, space, NEL (133) and the no-break
  space (160).
\<close>

definition is_space :: "char \<Rightarrow> bool" where
  "is_space c = (of_char c \<in> {9, 10, 11, 12, 13, 28, 29, 30, 31, 32, 133, 160 :: nat})"

text \<open>\<open>s.strip()\<close>: leading and trailing whitespace removed.\<close>

definition strip :: "string \<Rightarrow> string" where
  "strip s = rev (dropWhile is_space (rev (dropWhile is_space s)))"

text \<open>\<open>s.split()\<close>: the maximal runs of characters that are not whitespace.\<close>

fun split_ws_acc :: "string \<Rightarrow> string \<Rightarrow> string list" where
  "split_ws_acc cur [] = (if cur = [] then [] else [cur])"
| "split_ws_acc cur (c # cs) =
     (if is_space c then (if cur = [] then split_ws_acc [] cs else cur # split_ws_acc [] cs)
      else split_ws_acc (cur @ [c]) cs)"

definition split_ws :: "string \<Rightarrow> string list" where
  "split_ws s = split_ws_acc [] s"

text \<open>\<open>sub in s\<close> for strings.\<close>

fun contains :: "string \<Rightarrow> string \<Rightarrow> bool" where
  "contains sub [] = (sub = [])"
| "contains sub (c # cs) = (take (length sub) (c # cs) = sub \<or> contains sub cs)"

subsection \<open>Integers as text\<close>

definition digit_char :: "nat \<Rightarrow> char" where
  "digit_char d = ''0123456789'' ! (d mod 10)"

text \<open>\<open>str(n)\<close> for a natural number: its decimal digits, most significant first.\<close>

fun digits :: "nat \<Rightarrow> string" where
  "digits n = (if n < 10 then [digit_char n] else digits (n div 10) @ [digit_char (n mod 10)])"

declare digits.simps [simp del]

definition zfill :: "nat \<Rightarrow> string \<Rightarrow> string" where
  "zfill w s = replicate (w - length s) CHR ''0'' @ s"

text \<open>
  The format specification \<open>{n:0w}\<close> on an integer: zero padding to width \<open>w\<close> between the
  sign and the digits, so that \<open>{-5:03}\<close> is \<open>-05\<close>; a number with more digits than the
  width is printed whole.
\<close>

definition format_int :: "nat \<Rightarrow> int \<Rightarrow> string" where
  "format_int w n =
     (if n < 0 then CHR ''-'' # zfill (w - 1) (digits (nat (- n))) else zfill w (digits (nat n)))"

text \<open>\<open>str(e)\<close>; Starlette prints an \<open>HTTPException\<close> as status code, colon, detail.\<close>

fun str_exn :: "exn \<Rightarrow> string" where
  "str_exn (Exception m) = m"
| "str_exn (HTTPException code detail) = digits code @ '': '' @ detail"

subsection \<open>Floats\<close>

text \<open>
  A Python \<open>float\<close> is an IEEE 754 binary64 value. \<open>Finite m e\<close> is the number
  \<open>m * 2 ^ e\<close>; a double is such a value with \<open>\<bar>m\<bar> < 2 ^ 53\<close> and
  \<open>- 1074 \<le> e \<le> 971\<close>. The sign of zero is dropped: main.py only multiplies a float
  and truncates it, where the two zeros behave alike.
\<close>

datatype pyfloat = Finite int int | Infinity bool | NaN

text \<open>\<open>int.bit_length\<close> of a non-negative integer.\<close>

function bit_length :: "int \<Rightarrow> nat" where
  "bit_length n = (if n \<le> 0 then 0 else Suc (bit_length (n div 2)))"
  by pat_completeness auto
termination
  by (relation "measure nat") auto

declare bit_length.simps [simp del]

text \<open>
  Rounding of the exact value \<open>m * 2 ^ e\<close> to the nearest double, ties to the even
  mantissa, with gradual underflow below \<open>2 ^ - 1022\<close> and overflow to infinity.
\<close>

definition round_to_double :: "int \<Rightarrow> int \<Rightarrow> pyfloat" where
  "round_to_double m e =
     (let n = int (bit_length \<bar>m\<bar>);
          t = max (n + e - 53) (- 1074)
      in if t \<le> e then
           (if n + e > 1024 then Infinity (m < 0) else Finite (m * 2 ^ nat (e - t)) t)
         else
           (let k = nat (t - e);
                q = \<bar>m\<bar> div 2 ^ k;
                r = \<bar>m\<bar> mod 2 ^ k;
                half = 2 ^ (k - 1);
                q' = (if r > half \<or> (r = half \<and> odd q) then q + 1 else q)
            in if int (bit_length q') + t > 1024 then Infinity (m < 0)
               else Finite (sgn m * q') t))"

text \<open>\<open>x * y\<close> on floats: the exact product, rounded once.\<close>

fun float_mul :: "pyfloat \<Rightarrow> pyfloat \<Rightarrow> pyfloat" where
  "float_mul (Finite m1 e1) (Finite m2 e2) = round_to_double (m1 * m2) (e1 + e2)"
| "float_mul NaN _ = NaN"
| "float_mul _ NaN = NaN"
| "float_mul (Infinity s) (Finite m e) = (if m = 0 then NaN else Infinity (s \<noteq> (m < 0)))"
| "float_mul (Finite m e) (Infinity s) = (if m = 0 then NaN else Infinity (s \<noteq> (m < 0)))"
| "float_mul (Infinity s1) (Infinity s2) = Infinity (s1 \<noteq> s2)"

text \<open>\<open>float(n)\<close> for an integer that a double holds exactly (here only 1000).\<close>

definition float_of_int :: "int \<Rightarrow> pyfloat" where
  "float_of_int n = round_to_double n 0"

text \<open>\<open>int(x)\<close>: truncation towards zero; infinities and NaN raise.\<close>

fun int_of_float :: "pyfloat \<Rightarrow> exn + int" where
  "int_of_float (Finite m e) =
     Inr (if 0 \<le> e then m * 2 ^ nat e
          else if 0 \<le> m then m div 2 ^ nat (- e)
          else - ((- m) div 2 ^ nat (- e)))"
| "int_of_float (Infinity s) = Inl (Exception ''cannot convert float infinity to integer'')"
| "int_of_float NaN = Inl (Exception ''cannot convert float NaN to integer'')"

section \<open>generate_srt\<close>

text \<open>
  \<open>format_timestamp\<close>, the function nested in \<open>generate_srt\<close> (lines 73 to 79); the
  integer part works on Python's unbounded integers with floor division.
\<close>

definition format_millis :: "int \<Rightarrow> string" where
  "format_millis millis =
     (let hours = millis div 3600000;
          minutes = (millis mod 3600000) div 60000;
          seconds = (millis mod 60000) div 1000;
          milliseconds = millis mod 1000
      in format_int 2 hours @ '':'' @ format_int 2 minutes @ '':'' @ format_int 2 seconds
         @ '','' @ format_int 3 milliseconds)"

definition format_timestamp :: "pyfloat \<Rightarrow> exn + string" where
  "format_timestamp seconds =
     (case int_of_float (float_mul seconds (float_of_int 1000)) of
        Inl e \<Rightarrow> Inl e
      | Inr millis \<Rightarrow> Inr (format_millis millis))"

text \<open>A Whisper segment, with the three keys that \<open>generate_srt\<close> reads.\<close>

record segment =
  seg_start :: pyfloat
  seg_end :: pyfloat
  seg_text :: string

text \<open>The text written for entry \<open>i\<close> (line 86).\<close>

definition srt_entry :: "nat \<Rightarrow> string \<Rightarrow> string \<Rightarrow> string \<Rightarrow> string" where
  "srt_entry i start stop text =
     digits i @ [CHR 0x0A] @ start @ '' --> '' @ stop @ [CHR 0x0A] @ text @ [CHR 0x0A, CHR 0x0A]"

text \<open>
  The loop of lines 82 to 86 from index \<open>i\<close> on, appending to what the file holds so far.
  An exception of \<open>format_timestamp\<close> leaves the entries already written in the file.
\<close>

fun write_entries :: "nat \<Rightarrow> segment list \<Rightarrow> string \<Rightarrow> (exn + unit) \<times> string" where
  "write_entries i [] buf = (Inr (), buf)"
| "write_entries i (s # ss) buf =
     (case format_timestamp (seg_start s) of
        Inl e \<Rightarrow> (Inl e, buf)
      | Inr start \<Rightarrow>
          (case format_timestamp (seg_end s) of
             Inl e \<Rightarrow> (Inl e, buf)
           | Inr stop \<Rightarrow>
               write_entries (Suc i) ss (buf @ srt_entry i start stop (strip (seg_text s)))))"

text \<open>
  The files under the upload directory: a media file is opaque, a subtitle file holds
  its text.
\<close>

datatype content = Media | SrtText string

type_synonym path = string
type_synonym filesystem = "path \<rightharpoonup> content"

text \<open>
  \<open>generate_srt(segments, srt_path)\<close>. Whether \<open>open(srt_path, "w")\<close> raises is the
  environment's choice \<open>open_err\<close>; once open, the file is truncated and the entries are
  written in order. The content kept is the text handed to \<open>write\<close>, with \<open>\n\<close> as the
  line end (a platform whose text mode rewrites line ends stores other bytes for it).
\<close>

definition generate_srt ::
  "exn option \<Rightarrow> segment list \<Rightarrow> path \<Rightarrow> filesystem \<Rightarrow> (exn + unit) \<times> filesystem" where
  "generate_srt open_err segments srt_path fs =
     (case open_err of
        Some e \<Rightarrow> (Inl e, fs)
      | None \<Rightarrow>
          (case write_entries 1 segments [] of
             (r, buf) \<Rightarrow> (r, fs(srt_path \<mapsto> SrtText buf))))"

subsection \<open>Reading a decimal literal\<close>

text \<open>
  The double that Python reads a decimal literal \<open>p / q\<close> as (\<open>q > 0\<close>): the nearest
  one, ties to even. It is used to name the float \<open>3661.234\<close>, that is
  \<open>float_of_ratio 3661234 1000\<close>.
\<close>

definition scaled_quot :: "int \<Rightarrow> int \<Rightarrow> int \<Rightarrow> int" where
  "scaled_quot a q t = (if 0 \<le> t then a div (q * 2 ^ nat t) else (a * 2 ^ nat (- t)) div q)"

definition float_of_ratio :: "int \<Rightarrow> int \<Rightarrow> pyfloat" where
  "float_of_ratio p q =
     (let a = \<bar>p\<bar>;
          t0 = int (bit_length a) - int (bit_length q) - 53;
          t = max (if scaled_quot a q t0 \<ge> 2 ^ 53 then t0 + 1 else t0) (- 1074);
          num = (if 0 \<le> t then a else a * 2 ^ nat (- t));
          den = (if 0 \<le> t then q * 2 ^ nat t else q);
          d = num div den;
          r = num mod den;
          d' = (if 2 * r > den \<or> (2 * r = den \<and> odd d) then d + 1 else d)
      in if int (bit_length d') + t > 1024 then Infinity (p < 0) else Finite (sgn p * d') t)"

subsection \<open>What the subtitle format asks of generate_srt\<close>

text \<open>\<open>x \<le> y\<close> on floats (false when either is NaN).\<close>

fun float_le :: "pyfloat \<Rightarrow> pyfloat \<Rightarrow> bool" where
  "float_le (Finite m1 e1) (Finite m2 e2) =
     (if e1 \<le> e2 then m1 \<le> m2 * 2 ^ nat (e2 - e1) else m1 * 2 ^ nat (e1 - e2) \<le> m2)"
| "float_le NaN _ = False"
| "float_le _ NaN = False"
| "float_le (Infinity s) (Finite m e) = s"
| "float_le (Finite m e) (Infinity s) = (\<not> s)"
| "float_le (Infinity s1) (Infinity s2) = (s1 \<or> \<not> s2)"

text \<open>
  A time of a transcript, in seconds: a finite double that is not negative and at most
  \<open>10 ^ 12\<close>.
\<close>

definition time_ok :: "pyfloat \<Rightarrow> bool" where
  "time_ok x =
     (case x of
        Finite m e \<Rightarrow> 0 \<le> m \<and> m < 2 ^ 53 \<and> - 1074 \<le> e \<and> e \<le> 971
          \<and> float_le x (Finite 1000000000000 0)
      | _ \<Rightarrow> False)"

text \<open>A Segment of the specification: start not negative, end not before start.\<close>

definition valid_segment :: "segment \<Rightarrow> bool" where
  "valid_segment s =
     (time_ok (seg_start s) \<and> time_ok (seg_end s) \<and> float_le (seg_start s) (seg_end s))"

text \<open>
  The whole milliseconds in a time: the floor of the exact thousandfold of the number
  that the double denotes.
\<close>

fun whole_millis :: "pyfloat \<Rightarrow> int" where
  "whole_millis (Finite m e) =
     (if 0 \<le> e then m * 1000 * 2 ^ nat e else (m * 1000) div 2 ^ nat (- e))"
| "whole_millis x = 0"

text \<open>
  A count of milliseconds stands for a time when it is the whole milliseconds of the
  time, or one more: the product with 1000 is rounded before it is cut, so that
  \<open>0.29\<close>, a double just below 29/100, is 290 ms.
\<close>

definition millis_for :: "pyfloat \<Rightarrow> nat \<Rightarrow> bool" where
  "millis_for x ms = (whole_millis x \<le> int ms \<and> int ms \<le> whole_millis x + 1)"

definition is_digit :: "char \<Rightarrow> bool" where
  "is_digit c = (c \<in> set ''0123456789'')"

text \<open>
  The shape \<open>HH:MM:SS,mmm\<close>: two digits each for the hours, the minutes and the seconds,
  three for the milliseconds.
\<close>

definition is_hms :: "string \<Rightarrow> bool" where
  "is_hms t =
     (length t = 12
      \<and> list_all (\<lambda>i. is_digit (t ! i)) [0, 1, 3, 4, 6, 7, 9, 10, 11]
      \<and> t ! 2 = CHR '':'' \<and> t ! 5 = CHR '':'' \<and> t ! 8 = CHR '','')"

text \<open>
  The text of a count of milliseconds: hours, minutes and seconds in two digits and
  the milliseconds in three. From 100 hours on the hours no longer fit two digits and
  are written out in full.
\<close>

definition two_digit :: "nat \<Rightarrow> string" where
  "two_digit n = [digit_char (n div 10), digit_char n]"

definition three_digit :: "nat \<Rightarrow> string" where
  "three_digit n = [digit_char (n div 100), digit_char (n div 10), digit_char n]"

definition spec_hms :: "nat \<Rightarrow> string" where
  "spec_hms ms =
     (if ms div 3600000 < 100 then two_digit (ms div 3600000) else digits (ms div 3600000))
     @ '':'' @ two_digit (ms div 60000 mod 60)
     @ '':'' @ two_digit (ms div 1000 mod 60)
     @ '','' @ three_digit (ms mod 1000)"

text \<open>
  The caption file as the specification words it, for segments and the milliseconds of
  their starts and ends: entry \<open>i\<close> is the index line, the time range, the trimmed text
  and a blank line.
\<close>

definition spec_entry :: "nat \<Rightarrow> nat \<Rightarrow> nat \<Rightarrow> string \<Rightarrow> string" where
  "spec_entry i start_ms end_ms text =
     digits i @ [CHR 0x0A]
     @ spec_hms start_ms @ '' --> '' @ spec_hms end_ms @ [CHR 0x0A]
     @ strip text @ [CHR 0x0A]
     @ [CHR 0x0A]"

definition spec_srt :: "segment list \<Rightarrow> (nat \<times> nat) list \<Rightarrow> string" where
  "spec_srt segments stamps =
     concat (map (\<lambda>(i, s, a, b). spec_entry (Suc i) a b (seg_text s))
               (zip [0..<length segments] (zip segments stamps)))"

section \<open>The endpoints and their environment\<close>

subsection \<open>Media clips of moviepy\<close>

text \<open>
  A duration is a finite double, kept as the rational it denotes: main.py only compares
  durations and passes them on. An audio clip is a window on its source file: the offset
  \<open>a_offset\<close> into the source and the duration \<open>a_duration\<close>.
\<close>

record vclip =
  v_source :: path
  v_duration :: rat

record aclip =
  a_source :: path
  a_offset :: rat
  a_duration :: rat

text \<open>
  \<open>clip.subclip(t_start, t_end)\<close> of moviepy for two numbers: a negative time counts from
  the end, a start beyond the clip raises, and the new clip lasts \<open>t_end - t_start\<close>.
\<close>

definition subclip :: "aclip \<Rightarrow> rat \<Rightarrow> rat \<Rightarrow> exn + aclip" where
  "subclip c t_start t_end =
     (let ts = (if t_start < 0 then a_duration c + t_start else t_start) in
      if ts > a_duration c then Inl (Exception ''t_start should be smaller than the clip duration'')
      else
        (let te = (if t_end < 0 then a_duration c + t_end else t_end)
         in Inr (c\<lparr>a_offset := a_offset c + ts, a_duration := te - ts\<rparr>)))"

subsection \<open>Events, the world and the environment\<close>

text \<open>
  Every call that leaves main.py for a library, the file system or a model is an event
  of the run, logged with its outcome. The outcome itself is the environment's: a value
  or an exception.
\<close>

datatype call =
    SaveUpload path
  | OpenVideoClip path
  | WriteAudio path
  | CloseClip
  | Transcribe path
  | GenerateSrt path
  | Translate string string
  | Summarize string
  | TtsSave string string path
  | OpenAudioClip path
  | FitAudio
  | WriteVideo path aclip
  | CloseFinalClip
  | CloseNewAudio
  | RemoveFile path

datatype event = Done call | Failed call exn

text \<open>
  The state a run works on: the files of the upload directory, the events so far, the
  endpoint's local variable \<open>clip\<close> (\<open>None\<close> until \<open>VideoFileClip\<close> has returned) and
  whether the reader behind that clip is open.
\<close>

record world =
  files :: filesystem
  log :: "event list"
  clip :: "vclip option"
  clip_open :: bool

text \<open>A write to a file either completes or raises, leaving a partial file or none.\<close>

datatype write_outcome = Written | WriteFailed exn bool

record transcription =
  tr_text :: string
  tr_segments :: "segment list"

text \<open>
  What a run meets outside main.py: the three global models (\<open>None\<close> when loading failed
  at start-up), the fresh UUID, and the outcome of every file, media and release call
  (opening a clip gives its duration).
\<close>

record env =
  global_translator :: "(string \<Rightarrow> string \<Rightarrow> exn + string) option"
  global_summarizer :: "(string \<Rightarrow> nat \<Rightarrow> nat \<Rightarrow> exn + string) option"
  global_whisper_model :: "(path \<Rightarrow> exn + transcription) option"
  uuid4 :: string
  save_result :: write_outcome
  open_clip_result :: "exn + rat"
  write_audio_result :: write_outcome
  close_clip_result :: "exn option"
  srt_open_result :: "exn option"
  tts_result :: write_outcome
  open_audio_result :: "exn + rat"
  write_video_result :: write_outcome
  close_final_result :: "exn option"
  close_audio_result :: "exn option"
  cleanup_close_result :: "exn option"
  remove_result :: "path \<Rightarrow> exn option"

text \<open>A computation that may raise, over the world.\<close>

type_synonym 'a io = "world \<Rightarrow> (exn + 'a) \<times> world"

definition ret :: "'a \<Rightarrow> 'a io" where
  "ret x w = (Inr x, w)"

definition raise :: "exn \<Rightarrow> 'a io" where
  "raise e w = (Inl e, w)"

definition bind :: "'a io \<Rightarrow> ('a \<Rightarrow> 'b io) \<Rightarrow> 'b io" where
  "bind m f w = (case m w of (Inl e, w') \<Rightarrow> (Inl e, w') | (Inr x, w') \<Rightarrow> f x w')"

text \<open>A call whose outcome the environment gives: logged, then returned or raised.\<close>

definition ext_call :: "call \<Rightarrow> exn + 'a \<Rightarrow> 'a io" where
  "ext_call c r w =
     (case r of
        Inl e \<Rightarrow> (Inl e, w\<lparr>log := log w @ [Failed c e]\<rparr>)
      | Inr v \<Rightarrow> (Inr v, w\<lparr>log := log w @ [Done c]\<rparr>))"

text \<open>
  A write of a media file at \<open>p\<close>: the file is there afterwards when the write completed
  or left a partial file behind.
\<close>

definition write_media :: "call \<Rightarrow> path \<Rightarrow> write_outcome \<Rightarrow> unit io" where
  "write_media c p r w =
     (case r of
        Written \<Rightarrow> (Inr (), w\<lparr>files := (files w)(p \<mapsto> Media), log := log w @ [Done c]\<rparr>)
      | WriteFailed e partial \<Rightarrow>
          (Inl e, w\<lparr>files := (if partial then (files w)(p \<mapsto> Media) else files w),
                    log := log w @ [Failed c e]\<rparr>))"

text \<open>\<open>clip = mp.VideoFileClip(p)\<close>: the variable is assigned once the call has returned.\<close>

definition open_video_clip :: "env \<Rightarrow> path \<Rightarrow> vclip io" where
  "open_video_clip env p w =
     (case open_clip_result env of
        Inl e \<Rightarrow> (Inl e, w\<lparr>log := log w @ [Failed (OpenVideoClip p) e]\<rparr>)
      | Inr d \<Rightarrow>
          (Inr \<lparr>v_source = p, v_duration = d\<rparr>,
           w\<lparr>log := log w @ [Done (OpenVideoClip p)],
             clip := Some \<lparr>v_source = p, v_duration = d\<rparr>, clip_open := True\<rparr>))"

text \<open>\<open>clip.close()\<close>, with the outcome \<open>r\<close> of this call.\<close>

definition close_clip :: "exn option \<Rightarrow> unit io" where
  "close_clip r w =
     (case r of
        None \<Rightarrow> (Inr (), w\<lparr>log := log w @ [Done CloseClip], clip_open := False\<rparr>)
      | Some e \<Rightarrow> (Inl e, w\<lparr>log := log w @ [Failed CloseClip e]\<rparr>))"

text \<open>\<open>os.remove(p)\<close>; a missing file raises.\<close>

definition remove_file :: "env \<Rightarrow> path \<Rightarrow> unit io" where
  "remove_file env p w =
     (if files w p = None then
        (Inl (Exception ''No such file or directory''),
         w\<lparr>log := log w @ [Failed (RemoveFile p) (Exception ''No such file or directory'')]\<rparr>)
      else
        (case remove_result env p of
           None \<Rightarrow> (Inr (), w\<lparr>files := (files w)(p := None), log := log w @ [Done (RemoveFile p)]\<rparr>)
         | Some e \<Rightarrow> (Inl e, w\<lparr>log := log w @ [Failed (RemoveFile p) e]\<rparr>)))"

text \<open>\<open>if os.path.exists(p): os.remove(p)\<close>.\<close>

definition remove_if_exists :: "env \<Rightarrow> path \<Rightarrow> unit io" where
  "remove_if_exists env p w = (if files w p \<noteq> None then remove_file env p w else (Inr (), w))"

text \<open>\<open>if clip: clip.close()\<close> of the \<open>finally\<close> blocks; a clip object is always true.\<close>

definition close_if_clip :: "env \<Rightarrow> unit io" where
  "close_if_clip env w =
     (if clip w \<noteq> None then close_clip (cleanup_close_result env) w else (Inr (), w))"

text \<open>\<open>generate_srt\<close> as a call of an endpoint, on the files of the world.\<close>

definition run_generate_srt :: "env \<Rightarrow> segment list \<Rightarrow> path \<Rightarrow> unit io" where
  "run_generate_srt env segments p w =
     (case generate_srt (srt_open_result env) segments p (files w) of
        (Inl e, fs) \<Rightarrow> (Inl e, w\<lparr>files := fs, log := log w @ [Failed (GenerateSrt p) e]\<rparr>)
      | (Inr u, fs) \<Rightarrow> (Inr (), w\<lparr>files := fs, log := log w @ [Done (GenerateSrt p)]\<rparr>))"

text \<open>
  \<open>try: body except Exception as e: raise handler(e) finally: cleanup\<close>. An exception
  of the \<open>finally\<close> block replaces the pending result, be it a response or an exception.
\<close>

definition try_except_finally :: "'a io \<Rightarrow> (exn \<Rightarrow> exn) \<Rightarrow> unit io \<Rightarrow> 'a io" where
  "try_except_finally body handler cleanup w =
     (case body w of
        (r, w1) \<Rightarrow>
          (case cleanup w1 of
             (Inl e2, w2) \<Rightarrow> (Inl e2, w2)
           | (Inr u, w2) \<Rightarrow> ((case r of Inl e \<Rightarrow> Inl (handler e) | Inr v \<Rightarrow> Inr v), w2)))"

text \<open>A JSON response: the fields of its content in order, and the status code.\<close>

datatype response = JSONResponse "(string \<times> string) list" nat

fun field :: "response \<Rightarrow> string \<Rightarrow> string option" where
  "field (JSONResponse content status) k = map_of content k"

section \<open>summarize_text\<close>

text \<open>
  The body of the \<open>try\<close> block of \<open>summarize_text\<close> (lines 144 to 188), with the two
  global models at hand.
\<close>

definition summarize_body ::
  "(string \<Rightarrow> string \<Rightarrow> exn + string) \<Rightarrow> (string \<Rightarrow> nat \<Rightarrow> nat \<Rightarrow> exn + string)
   \<Rightarrow> string \<Rightarrow> string \<Rightarrow> string \<Rightarrow> response io" where
  "summarize_body translate summarizer text input_lang output_lang =
     bind (if input_lang \<noteq> ''en''
           then ext_call (Translate text ''en'') (translate text ''en'')
           else ret text) (\<lambda>processed_text.
     if length (split_ws processed_text) < 20
     then raise (HTTPException 400
       ''Translated text is too short for meaningful summarization. Please provide more input.'')
     else
     bind (ext_call (Summarize (''Summarize: '' @ processed_text))
             (summarizer (''Summarize: '' @ processed_text) 250 60)) (\<lambda>english_summary.
     bind (if output_lang \<noteq> ''en'' \<and> output_lang \<noteq> input_lang
           then ext_call (Translate english_summary output_lang)
                  (translate english_summary output_lang)
           else ret english_summary) (\<lambda>final_summary.
     ret (JSONResponse
            [(''original_text'', text),
             (''processed_for_summarization'', processed_text),
             (''summary'', final_summary),
             (''summarized_in_english'', english_summary),
             (''input_language'', input_lang),
             (''output_language'', output_lang)] 200))))"

text \<open>The handler of lines 190 to 195: every exception of the body becomes a 500.\<close>

definition summarize_handler :: "exn \<Rightarrow> exn" where
  "summarize_handler e =
     (if contains ''max_length'' (str_exn e) \<and> contains ''min_length'' (str_exn e)
      then HTTPException 500
        (''Summarization model error: Max/Min length issue. Try different input or adjust backend model parameters. Error: ''
         @ str_exn e)
      else HTTPException 500 (''Summarization failed: '' @ str_exn e))"

definition summarize_text :: "env \<Rightarrow> string \<Rightarrow> string \<Rightarrow> string \<Rightarrow> response io" where
  "summarize_text env text input_lang output_lang w =
     (case global_summarizer env of
        None \<Rightarrow> (Inl (HTTPException 500 ''Summarization model not loaded. Backend error.''), w)
      | Some summarizer \<Rightarrow>
     (case global_translator env of
        None \<Rightarrow> (Inl (HTTPException 500 ''Translator not initialized. Backend error.''), w)
      | Some translate \<Rightarrow>
     if strip text = [] then
       (Inl (HTTPException 400 ''Text to summarize cannot be empty.''), w)
     else if length text < 100 then
       (Inl (HTTPException 400
         ''Input text is too short for meaningful summarization. Please provide at least 100 characters.''), w)
     else
       (case summarize_body translate summarizer text input_lang output_lang w of
          (Inl e, w') \<Rightarrow> (Inl (summarize_handler e), w')
        | (Inr r, w') \<Rightarrow> (Inr r, w'))))"

section \<open>File names\<close>

definition UPLOAD_DIR :: path where
  "UPLOAD_DIR = ''uploads''"

text \<open>\<open>os.path.join(a, b)\<close> with the separator \<open>/\<close>; an absolute \<open>b\<close> stands alone.\<close>

definition path_join :: "path \<Rightarrow> path \<Rightarrow> path" where
  "path_join a b = (if b \<noteq> [] \<and> hd b = CHR ''/'' then b else a @ ''/'' @ b)"

text \<open>\<open>s.split('.')[-1]\<close> and \<open>s.rsplit('.', 1)[0]\<close>.\<close>

definition after_last_dot :: "string \<Rightarrow> string" where
  "after_last_dot s = rev (takeWhile (\<lambda>c. c \<noteq> CHR ''.'') (rev s))"

definition before_last_dot :: "string \<Rightarrow> string" where
  "before_last_dot s =
     (if CHR ''.'' \<in> set s then rev (tl (dropWhile (\<lambda>c. c \<noteq> CHR ''.'') (rev s))) else s)"

text \<open>
  \<open>s.replace(old, new)\<close> for a non-empty \<open>old\<close> (here always a dot and an extension):
  every occurrence, from the left, without overlap.
\<close>

fun str_replace :: "string \<Rightarrow> string \<Rightarrow> string \<Rightarrow> string" where
  "str_replace old new [] = []"
| "str_replace old new (c # cs) =
     (if take (length old) (c # cs) = old
      then new @ str_replace old new (drop (length old - 1) cs)
      else c # str_replace old new cs)"

text \<open>
  \<open>file.filename.split('.')[-1] if '.' in file.filename else dflt\<close>, and the names
  derived from it and from the fresh UUID (lines 209 to 211, 259 to 264, 330 to 336).
\<close>

definition file_extension :: "string \<Rightarrow> string \<Rightarrow> string" where
  "file_extension filename dflt =
     (if CHR ''.'' \<in> set filename then after_last_dot filename else dflt)"

definition unique_filename :: "env \<Rightarrow> string \<Rightarrow> string \<Rightarrow> string" where
  "unique_filename env filename dflt = uuid4 env @ ''.'' @ file_extension filename dflt"

definition upload_path :: "env \<Rightarrow> string \<Rightarrow> string \<Rightarrow> path" where
  "upload_path env filename dflt = path_join UPLOAD_DIR (unique_filename env filename dflt)"

definition audio_path_of :: "env \<Rightarrow> string \<Rightarrow> path" where
  "audio_path_of env filename =
     str_replace (''.'' @ file_extension filename ''mp4'') ''.mp3'' (upload_path env filename ''mp4'')"

definition tts_path_of :: "env \<Rightarrow> string \<Rightarrow> path" where
  "tts_path_of env filename =
     str_replace (''.'' @ file_extension filename ''mp4'') ''_tts.mp3''
       (upload_path env filename ''mp4'')"

definition srt_filename_of :: "env \<Rightarrow> string \<Rightarrow> string \<Rightarrow> string" where
  "srt_filename_of env filename dflt =
     before_last_dot (unique_filename env filename dflt) @ ''.srt''"

definition srt_path_of :: "env \<Rightarrow> string \<Rightarrow> string \<Rightarrow> path" where
  "srt_path_of env filename dflt = path_join UPLOAD_DIR (srt_filename_of env filename dflt)"

definition output_filename_of :: "env \<Rightarrow> string \<Rightarrow> string" where
  "output_filename_of env filename =
     before_last_dot (unique_filename env filename ''mp4'') @ ''_translated.mp4''"

definition output_path_of :: "env \<Rightarrow> string \<Rightarrow> path" where
  "output_path_of env filename = path_join UPLOAD_DIR (output_filename_of env filename)"

section \<open>upload_audio_file\<close>

definition upload_audio_body ::
  "env \<Rightarrow> (path \<Rightarrow> exn + transcription) \<Rightarrow> (string \<Rightarrow> string \<Rightarrow> exn + string)
   \<Rightarrow> string \<Rightarrow> response io" where
  "upload_audio_body env whisper translate filename =
     (let file_path = upload_path env filename ''mp3'';
          srt_filename = srt_filename_of env filename ''mp3'';
          srt_path = srt_path_of env filename ''mp3'' in
      bind (write_media (SaveUpload file_path) file_path (save_result env)) (\<lambda>u1.
      bind (ext_call (Transcribe file_path) (whisper file_path)) (\<lambda>result.
      bind (run_generate_srt env (tr_segments result) srt_path) (\<lambda>u2.
      bind (ext_call (Translate (tr_text result) ''en'') (translate (tr_text result) ''en''))
        (\<lambda>translated.
      ret (JSONResponse
             [(''message'', ''Audio upload and processing successful!''),
              (''transcription'', tr_text result),
              (''translation'', translated),
              (''subtitle_file_url'', ''/uploads/'' @ srt_filename)] 200))))))"

definition upload_audio_handler :: "exn \<Rightarrow> exn" where
  "upload_audio_handler e = HTTPException 500 (''Audio processing failed: '' @ str_exn e)"

definition upload_audio_cleanup :: "env \<Rightarrow> string \<Rightarrow> unit io" where
  "upload_audio_cleanup env filename = remove_if_exists env (upload_path env filename ''mp3'')"

definition upload_audio_file :: "env \<Rightarrow> string \<Rightarrow> response io" where
  "upload_audio_file env filename w =
     (case global_whisper_model env of
        None \<Rightarrow> (Inl (HTTPException 500 ''Whisper model not loaded. Backend error.''), w)
      | Some whisper \<Rightarrow>
     (case global_translator env of
        None \<Rightarrow> (Inl (HTTPException 500 ''Translator not initialized. Backend error.''), w)
      | Some translate \<Rightarrow>
          try_except_finally (upload_audio_body env whisper translate filename)
            upload_audio_handler (upload_audio_cleanup env filename) w))"

section \<open>generate_subtitles\<close>

definition generate_subtitles_body ::
  "env \<Rightarrow> (path \<Rightarrow> exn + transcription) \<Rightarrow> (string \<Rightarrow> string \<Rightarrow> exn + string)
   \<Rightarrow> string \<Rightarrow> string \<Rightarrow> response io" where
  "generate_subtitles_body env whisper translate filename lang =
     (let video_path = upload_path env filename ''mp4'';
          audio_path = audio_path_of env filename;
          srt_filename = srt_filename_of env filename ''mp4'';
          srt_path = srt_path_of env filename ''mp4'' in
      bind (write_media (SaveUpload video_path) video_path (save_result env)) (\<lambda>u1.
      bind (open_video_clip env video_path) (\<lambda>c.
      bind (write_media (WriteAudio audio_path) audio_path (write_audio_result env)) (\<lambda>u2.
      bind (close_clip (close_clip_result env)) (\<lambda>u3.
      bind (ext_call (Transcribe audio_path) (whisper audio_path)) (\<lambda>result.
      bind (run_generate_srt env (tr_segments result) srt_path) (\<lambda>u4.
      bind (if lang \<noteq> ''en''
            then ext_call (Translate (tr_text result) lang) (translate (tr_text result) lang)
            else ret (tr_text result)) (\<lambda>final_subtitles_text.
      ret (JSONResponse
             [(''message'', ''Subtitles generated successfully!''),
              (''transcription'', tr_text result),
              (''subtitles'', final_subtitles_text),
              (''subtitle_file_url'', ''/uploads/'' @ srt_filename)] 200)))))))))"

definition generate_subtitles_handler :: "exn \<Rightarrow> exn" where
  "generate_subtitles_handler e =
     HTTPException 500 (''Video subtitle generation failed: '' @ str_exn e
       @ ''. Ensure FFmpeg is installed and in your system's PATH.'')"

definition generate_subtitles_cleanup :: "env \<Rightarrow> string \<Rightarrow> unit io" where
  "generate_subtitles_cleanup env filename =
     bind (close_if_clip env) (\<lambda>u1.
     bind (remove_if_exists env (upload_path env filename ''mp4'')) (\<lambda>u2.
     remove_if_exists env (audio_path_of env filename)))"

definition generate_subtitles :: "env \<Rightarrow> string \<Rightarrow> string \<Rightarrow> response io" where
  "generate_subtitles env filename lang w =
     (case global_whisper_model env of
        None \<Rightarrow> (Inl (HTTPException 500 ''Whisper model not loaded. Backend error.''), w)
      | Some whisper \<Rightarrow>
     (case global_translator env of
        None \<Rightarrow> (Inl (HTTPException 500 ''Translator not initialized. Backend error.''), w)
      | Some translate \<Rightarrow>
          try_except_finally (generate_subtitles_body env whisper translate filename lang)
            generate_subtitles_handler (generate_subtitles_cleanup env filename)
            (w\<lparr>clip := None, clip_open := False\<rparr>)))"

section \<open>video_translate\<close>

text \<open>
  Lines 364 to 368: an audio track longer than the video is cut to the video's
  duration; a shorter one, or one of the same length, is taken as it is.
\<close>

definition fit_audio :: "aclip \<Rightarrow> vclip \<Rightarrow> exn + aclip" where
  "fit_audio new_audio c =
     (if a_duration new_audio > v_duration c then subclip new_audio 0 (v_duration c)
      else if a_duration new_audio < v_duration c then Inr new_audio
      else Inr new_audio)"

text \<open>
  The body of the \<open>try\<close> block (lines 341 to 379). \<open>final_clip\<close> is the copy that
  \<open>clip.set_audio(new_audio)\<close> returns; closing it and closing \<open>new_audio\<close> are calls of
  their own, and what the copy shares with \<open>clip\<close> inside moviepy is not looked into.
\<close>

definition open_audio_clip :: "env \<Rightarrow> path \<Rightarrow> aclip io" where
  "open_audio_clip env p =
     ext_call (OpenAudioClip p)
       (case open_audio_result env of
          Inl e \<Rightarrow> Inl e
        | Inr d \<Rightarrow> Inr \<lparr>a_source = p, a_offset = 0, a_duration = d\<rparr>)"

definition video_translate_body ::
  "env \<Rightarrow> (path \<Rightarrow> exn + transcription) \<Rightarrow> (string \<Rightarrow> string \<Rightarrow> exn + string)
   \<Rightarrow> string \<Rightarrow> string \<Rightarrow> response io" where
  "video_translate_body env whisper translate filename lang =
     (let video_path = upload_path env filename ''mp4'';
          audio_path = audio_path_of env filename;
          tts_path = tts_path_of env filename;
          output_filename = output_filename_of env filename;
          output_path = output_path_of env filename in
      bind (write_media (SaveUpload video_path) video_path (save_result env)) (\<lambda>u1.
      bind (open_video_clip env video_path) (\<lambda>c.
      bind (write_media (WriteAudio audio_path) audio_path (write_audio_result env)) (\<lambda>u2.
      bind (ext_call (Transcribe audio_path) (whisper audio_path)) (\<lambda>result.
      bind (ext_call (Translate (tr_text result) lang) (translate (tr_text result) lang))
        (\<lambda>translated.
      bind (write_media (TtsSave translated lang tts_path) tts_path (tts_result env)) (\<lambda>u3.
      bind (open_audio_clip env tts_path) (\<lambda>new_audio.
      bind (ext_call FitAudio (fit_audio new_audio c)) (\<lambda>new_audio'.
      bind (write_media (WriteVideo output_path new_audio') output_path (write_video_result env))
        (\<lambda>u4.
      bind (ext_call CloseFinalClip
              (case close_final_result env of None \<Rightarrow> Inr () | Some e \<Rightarrow> Inl e)) (\<lambda>u5.
      bind (ext_call CloseNewAudio
              (case close_audio_result env of None \<Rightarrow> Inr () | Some e \<Rightarrow> Inl e)) (\<lambda>u6.
      ret (JSONResponse
             [(''message'', ''Translated video created!''),
              (''translated_text'', translated),
              (''output_file_url'', ''/uploads/'' @ output_filename)] 200)))))))))))))"

definition video_translate_handler :: "exn \<Rightarrow> exn" where
  "video_translate_handler e =
     HTTPException 500 (''Video translation failed: '' @ str_exn e
       @ ''. Ensure FFmpeg is installed and in your system's PATH.'')"

definition video_translate_cleanup :: "env \<Rightarrow> string \<Rightarrow> unit io" where
  "video_translate_cleanup env filename =
     bind (close_if_clip env) (\<lambda>u1.
     bind (remove_if_exists env (upload_path env filename ''mp4'')) (\<lambda>u2.
     bind (remove_if_exists env (audio_path_of env filename)) (\<lambda>u3.
     remove_if_exists env (tts_path_of env filename))))"

definition video_translate :: "env \<Rightarrow> string \<Rightarrow> string \<Rightarrow> response io" where
  "video_translate env filename lang w =
     (case global_whisper_model env of
        None \<Rightarrow> (Inl (HTTPException 500 ''Whisper model not loaded. Backend error.''), w)
      | Some whisper \<Rightarrow>
     (case global_translator env of
        None \<Rightarrow> (Inl (HTTPException 500 ''Translator not initialized. Backend error.''), w)
      | Some translate \<Rightarrow>
          try_except_finally (video_translate_body env whisper translate filename lang)
            video_translate_handler (video_translate_cleanup env filename)
            (w\<lparr>clip := None, clip_open := False\<rparr>)))"

section \<open>Runs of the pipeline endpoints\<close>

text \<open>The three endpoints that take an upload, as the router dispatches them.\<close>

datatype endpoint = UploadAudio | GenerateSubtitles | VideoTranslate

definition run_endpoint :: "endpoint \<Rightarrow> env \<Rightarrow> string \<Rightarrow> string \<Rightarrow> response io" where
  "run_endpoint ep env filename lang =
     (case ep of
        UploadAudio \<Rightarrow> upload_audio_file env filename
      | GenerateSubtitles \<Rightarrow> generate_subtitles env filename lang
      | VideoTranslate \<Rightarrow> video_translate env filename lang)"

definition handler_of :: "endpoint \<Rightarrow> exn \<Rightarrow> exn" where
  "handler_of ep =
     (case ep of
        UploadAudio \<Rightarrow> upload_audio_handler
      | GenerateSubtitles \<Rightarrow> generate_subtitles_handler
      | VideoTranslate \<Rightarrow> video_translate_handler)"

text \<open>The temporary files of a run: the saved upload, the extracted audio, the TTS audio.\<close>

definition temp_paths :: "endpoint \<Rightarrow> env \<Rightarrow> string \<Rightarrow> path list" where
  "temp_paths ep env filename =
     (case ep of
        UploadAudio \<Rightarrow> [upload_path env filename ''mp3'']
      | GenerateSubtitles \<Rightarrow> [upload_path env filename ''mp4'', audio_path_of env filename]
      | VideoTranslate \<Rightarrow>
          [upload_path env filename ''mp4'', audio_path_of env filename,
           tts_path_of env filename])"

fun call_of :: "event \<Rightarrow> call" where
  "call_of (Done c) = c"
| "call_of (Failed c e) = c"

fun is_done :: "event \<Rightarrow> bool" where
  "is_done (Done c) = True"
| "is_done (Failed c e) = False"

fun is_remove :: "call \<Rightarrow> bool" where
  "is_remove (RemoveFile p) = True"
| "is_remove c = False"

text \<open>The release actions: closing the clip and removing a file.\<close>

definition teardown_call :: "call \<Rightarrow> bool" where
  "teardown_call c = (c = CloseClip \<or> is_remove c)"

text \<open>
  A computation is traced by \<open>P\<close> when what it adds to the log are calls that satisfy
  \<open>P\<close>, all of them successful if it returns, and all but the last if it raises, the last
  being the call that raised the exception.
\<close>

definition traced :: "(call \<Rightarrow> bool) \<Rightarrow> 'a io \<Rightarrow> bool" where
  "traced P m =
     (\<forall>w. \<exists>evs. log (snd (m w)) = log w @ evs \<and> list_all (\<lambda>ev. P (call_of ev)) evs
        \<and> (case fst (m w) of
              Inr v \<Rightarrow> list_all is_done evs
            | Inl e \<Rightarrow> \<exists>pre c. evs = pre @ [Failed c e] \<and> list_all is_done pre))"

text \<open>A computation keeps \<open>I\<close> when \<open>I\<close> holds after it wherever it held before.\<close>

definition keeps :: "(world \<Rightarrow> bool) \<Rightarrow> 'a io \<Rightarrow> bool" where
  "keeps I m = (\<forall>w. I w \<longrightarrow> I (snd (m w)))"

text \<open>The reader of a clip is open only when the variable \<open>clip\<close> holds the clip.\<close>

definition clip_inv :: "world \<Rightarrow> bool" where
  "clip_inv w = (clip_open w \<longrightarrow> clip w \<noteq> None)"

section \<open>An environment to run the endpoints in\<close>

text \<open>
  Example data: an empty upload directory, and an environment in which every model is
  loaded and every call succeeds. The translator marks its output with the target
  language.
\<close>

definition world0 :: world where
  "world0 = \<lparr>files = Map.empty, log = [], clip = None, clip_open = False\<rparr>"

definition hello_segments :: "segment list" where
  "hello_segments =
     [\<lparr>seg_start = Finite 0 0, seg_end = Finite 5 (- 1), seg_text = '' Hello there''\<rparr>,
      \<lparr>seg_start = Finite 5 (- 1), seg_end = Finite 4 0, seg_text = '' world''\<rparr>]"

definition hello_srt :: string where
  "hello_srt =
     ''1'' @ [CHR 0x0A] @ ''00:00:00,000 --> 00:00:02,500'' @ [CHR 0x0A]
     @ ''Hello there'' @ [CHR 0x0A, CHR 0x0A]
     @ ''2'' @ [CHR 0x0A] @ ''00:00:02,500 --> 00:00:04,000'' @ [CHR 0x0A]
     @ ''world'' @ [CHR 0x0A, CHR 0x0A]"

definition env_ok :: env where
  "env_ok =
     \<lparr>global_translator = Some (\<lambda>text dest. Inr (''['' @ dest @ ''] '' @ text)),
      global_summarizer = Some (\<lambda>prompt max_length min_length. Inr ''A fox jumps over a dog.''),
      global_whisper_model = Some (\<lambda>p. Inr
        \<lparr>tr_text = '' Hello there world'', tr_segments = hello_segments\<rparr>),
      uuid4 = ''1b4e28ba-2fa1-41d2-883f-0016d3cca427'',
      save_result = Written,
      open_clip_result = Inr 10,
      write_audio_result = Written,
      close_clip_result = None,
      srt_open_result = None,
      tts_result = Written,
      open_audio_result = Inr 12,
      write_video_result = Written,
      close_final_result = None,
      close_audio_result = None,
      cleanup_close_result = None,
      remove_result = (\<lambda>p. None)\<rparr>"

definition fox_text :: string where
  "fox_text = ''the quick brown fox jumps over the lazy dog and then the quick brown fox jumps over the lazy dog again today''"

definition three_long_words :: string where
  "three_long_words = ''Supercalifragilisticexpialidocious Supercalifragilisticexpialidocious Supercalifragilisticexpialidocious''"

text \<open>Environments in which one call fails: transcription, translation, and a removal.\<close>

definition env_whisper_fails :: env where
  "env_whisper_fails = env_ok\<lparr>global_whisper_model := Some (\<lambda>p. Inl (Exception ''timed out''))\<rparr>"

definition env_translate_fails :: env where
  "env_translate_fails =
     env_ok\<lparr>global_translator := Some (\<lambda>text dest. Inl (Exception ''timed out''))\<rparr>"

definition env_locked :: env where
  "env_locked = env_whisper_fails\<lparr>remove_result := (\<lambda>p. Some (Exception ''Permission denied''))\<rparr>"

section \<open>Properties of generate_srt\<close>

subsection \<open>Digits and the text of a count of milliseconds\<close>

lemma digit_char_is_digit: "is_digit (digit_char d)"
proof -
  have "d mod 10 < length ''0123456789''" by simp
  then have "''0123456789'' ! (d mod 10) \<in> set ''0123456789''" by (rule nth_mem)
  then show ?thesis by (simp only: is_digit_def digit_char_def)
qed

lemma digit_char_mod: "digit_char (n mod 10) = digit_char n"
  by (simp add: digit_char_def)

lemma digit_char_0: "digit_char 0 = CHR ''0''"
  by (simp add: digit_char_def)

lemma digits_nonempty: "digits n \<noteq> []"
  by (subst digits.simps) simp

lemma digits_lt_10: "n < 10 \<Longrightarrow> digits n = [digit_char n]"
  by (subst digits.simps) simp

lemma digits_ge_10: "10 \<le> n \<Longrightarrow> digits n = digits (n div 10) @ [digit_char n]"
  by (subst digits.simps) (simp add: digit_char_mod)

lemma zfill_two: "n < 100 \<Longrightarrow> zfill 2 (digits n) = two_digit n"
proof (cases "n < 10")
  case True
  then show ?thesis by (simp add: zfill_def two_digit_def digits_lt_10 digit_char_0)
next
  case False
  assume "n < 100"
  with False have "n div 10 < 10" "10 \<le> n" by simp_all
  then show ?thesis by (simp add: zfill_def two_digit_def digits_ge_10 digits_lt_10)
qed

lemma zfill_three: "n < 1000 \<Longrightarrow> zfill 3 (digits n) = three_digit n"
proof (cases "n < 10")
  case True
  then show ?thesis
    by (simp add: zfill_def three_digit_def digits_lt_10 digit_char_0 numeral_3_eq_3)
next
  case ge10: False
  assume lt: "n < 1000"
  show ?thesis
  proof (cases "n < 100")
    case True
    with ge10 have "n div 10 < 10" "10 \<le> n" "n div 100 = 0" by simp_all
    then show ?thesis
      by (simp add: zfill_def three_digit_def digits_ge_10 digits_lt_10 digit_char_0)
  next
    case False
    with lt have "n div 10 div 10 < 10" "10 \<le> n div 10" "10 \<le> n" by simp_all
    moreover have "n div 10 div 10 = n div 100" by (simp add: div_mult2_eq)
    ultimately show ?thesis
      by (simp add: zfill_def three_digit_def digits_ge_10 digits_lt_10)
  qed
qed

lemma zfill_hours: "zfill 2 (digits h) = (if h < 100 then two_digit h else digits h)"
proof (cases "h < 100")
  case True
  then show ?thesis by (simp add: zfill_two)
next
  case False
  then have "10 \<le> h" by simp
  then have "2 \<le> length (digits h)"
    using digits_nonempty [of "h div 10"]
    by (simp add: digits_ge_10 Suc_le_eq)
  with False show ?thesis by (simp add: zfill_def)
qed

lemma millis_fields:
  fixes ms :: int
  assumes "0 \<le> ms"
  shows "nat (ms div 3600000) = nat ms div 3600000"
    and "nat ((ms mod 3600000) div 60000) = nat ms div 60000 mod 60"
    and "nat ((ms mod 60000) div 1000) = nat ms div 1000 mod 60"
    and "nat (ms mod 1000) = nat ms mod 1000"
proof -
  obtain n where n: "ms = int n" using assms by (metis nonneg_int_cases)
  have a: "n mod 3600000 div 60000 = n div 60000 mod 60"
    using mod_mult2_eq [of n 60000 60] by simp
  have b: "n mod 60000 div 1000 = n div 1000 mod 60"
    using mod_mult2_eq [of n 1000 60] by simp
  have i1: "int (n div 3600000) = int n div 3600000"
    and i2: "int (n mod 3600000 div 60000) = int n mod 3600000 div 60000"
    and i3: "int (n mod 60000 div 1000) = int n mod 60000 div 1000"
    and i4: "int (n mod 1000) = int n mod 1000"
    by (simp_all add: zdiv_int zmod_int)
  show "nat (ms div 3600000) = nat ms div 3600000"
    unfolding n by (simp only: i1 [symmetric] nat_int)
  show "nat ((ms mod 3600000) div 60000) = nat ms div 60000 mod 60"
    unfolding n by (simp only: i2 [symmetric] nat_int a)
  show "nat ((ms mod 60000) div 1000) = nat ms div 1000 mod 60"
    unfolding n by (simp only: i3 [symmetric] nat_int b)
  show "nat (ms mod 1000) = nat ms mod 1000"
    unfolding n by (simp only: i4 [symmetric] nat_int)
qed

lemma format_millis_spec:
  assumes "0 \<le> ms"
  shows "format_millis ms = spec_hms (nat ms)"
proof -
  have nonneg: "\<not> ms div 3600000 < 0" "\<not> (ms mod 3600000) div 60000 < 0"
    "\<not> (ms mod 60000) div 1000 < 0" "\<not> ms mod 1000 < 0"
    using assms by (simp_all add: pos_imp_zdiv_neg_iff)
  have m: "nat ms div 60000 mod 60 < 100" and s: "nat ms div 1000 mod 60 < 100"
    and f: "nat ms mod 1000 < 1000"
    by (simp_all add: less_trans [OF mod_less_divisor])
  show ?thesis
    unfolding format_millis_def format_int_def Let_def spec_hms_def
    by (simp only: nonneg if_False millis_fields [OF assms] zfill_hours
        zfill_three [OF f] m s if_True)
qed

lemma is_hms_spec_hms: "ms < 360000000 \<Longrightarrow> is_hms (spec_hms ms)"
proof -
  assume "ms < 360000000"
  then have "ms div 3600000 < 100" by simp
  then show ?thesis
    by (simp add: is_hms_def spec_hms_def two_digit_def three_digit_def digit_char_is_digit
        is_digit_def [of "CHR '':''"] )
qed



subsection \<open>The rounded product, cut to whole milliseconds\<close>

lemma bit_length_le: "0 \<le> M \<Longrightarrow> M < 2 ^ k \<Longrightarrow> bit_length M \<le> k"
proof (induction k arbitrary: M)
  case 0
  then have "M = 0" by simp
  then show ?case by (simp add: bit_length.simps)
next
  case (Suc k)
  show ?case
  proof (cases "M \<le> 0")
    case True
    then show ?thesis by (simp add: bit_length.simps)
  next
    case False
    have "M div 2 < 2 ^ k" using Suc.prems by simp
    moreover have "0 \<le> M div 2" using Suc.prems by simp
    ultimately have "bit_length (M div 2) \<le> k" by (rule Suc.IH [rotated])
    with False show ?thesis by (subst bit_length.simps) simp
  qed
qed

lemma if_succ_upper: "(if c then q + 1 else q) \<le> q + (1::int)"
  by simp

lemma if_succ_lower: "q \<le> (if c then q + 1 else (q::int))"
  by simp

lemma below_107: "(a::int) \<le> q + 1 \<Longrightarrow> q < 2 ^ 106 \<Longrightarrow> a < 2 ^ 107"
  by simp

lemma div_succ_le: "0 < T \<Longrightarrow> (q + 1) div T \<le> q div T + (1::int)"
proof -
  assume T: "0 < T"
  then have "(q + 1) div T \<le> (q + T) div T" by (intro zdiv_mono1) simp_all
  also have "\<dots> = q div T + 1" using T by simp
  finally show ?thesis .
qed

lemma cut_between:
  fixes q Q T :: int
  assumes "0 < T" "q \<le> Q" "Q \<le> q + 1"
  shows "q div T \<le> Q div T \<and> Q div T \<le> q div T + 1"
proof
  show "q div T \<le> Q div T" using assms(1,2) by (intro zdiv_mono1) simp_all
  have "Q div T \<le> (q + 1) div T" using assms(1,3) by (intro zdiv_mono1) simp_all
  also have "\<dots> \<le> q div T + 1" using assms(1) by (rule div_succ_le)
  finally show "Q div T \<le> q div T + 1" .
qed

lemma nat_neg_split: "(t::int) \<le> E \<Longrightarrow> E < 0 \<Longrightarrow> nat (- t) = nat (E - t) + nat (- E)"
  by arith

lemma nat_neg_split': "\<not> (t::int) \<le> E \<Longrightarrow> t < 0 \<Longrightarrow> nat (- E) = nat (t - E) + nat (- t)"
  by arith

lemma int_of_float_cut:
  "t < 0 \<Longrightarrow> 0 \<le> Q \<Longrightarrow> int_of_float (Finite Q t) = Inr (Q div 2 ^ nat (- t))"
  by simp

lemma trunc_round_sandwich:
  assumes M0: "0 \<le> M0" "M0 < 2 ^ 106" and E: "E < 0"
    and small: "M0 < 2 ^ (52 + nat (- E))"
  shows "\<exists>M. int_of_float (round_to_double M0 E) = Inr M
     \<and> M0 div 2 ^ nat (- E) \<le> M \<and> M \<le> M0 div 2 ^ nat (- E) + 1"
proof -
  let ?n = "int (bit_length \<bar>M0\<bar>)"
  let ?t = "max (?n + E - 53) (- 1074)"
  have "bit_length \<bar>M0\<bar> \<le> 52 + nat (- E)"
    using bit_length_le [of "\<bar>M0\<bar>" "52 + nat (- E)"] M0 small by simp
  then have n: "?n + E \<le> 52" using E by simp
  then have t: "?t < 0" by simp
  show ?thesis
  proof (cases "?t \<le> E")
    case True
    have "\<not> ?n + E > 1024" using n by simp
    with True have r: "round_to_double M0 E = Finite (M0 * 2 ^ nat (E - ?t)) ?t"
      by (simp only: round_to_double_def Let_def if_True if_False)
    have "nat (- ?t) = nat (E - ?t) + nat (- E)" using True E by (rule nat_neg_split)
    then have p: "(2::int) ^ nat (- ?t) = 2 ^ nat (E - ?t) * 2 ^ nat (- E)"
      by (simp only: power_add)
    have "0 \<le> M0 * 2 ^ nat (E - ?t)" using M0 by simp
    with t have i: "int_of_float (Finite (M0 * 2 ^ nat (E - ?t)) ?t)
        = Inr ((M0 * 2 ^ nat (E - ?t)) div 2 ^ nat (- ?t))"
      by (rule int_of_float_cut)
    have d: "(M0 * 2 ^ nat (E - ?t)) div 2 ^ nat (- ?t) = M0 div 2 ^ nat (- E)"
      unfolding p by simp
    show ?thesis unfolding r i d by simp
  next
    case False
    let ?k = "nat (?t - E)"
    let ?q = "\<bar>M0\<bar> div 2 ^ ?k"
    let ?r = "\<bar>M0\<bar> mod 2 ^ ?k"
    let ?q' = "(if ?r > 2 ^ (?k - 1) \<or> (?r = 2 ^ (?k - 1) \<and> odd ?q) then ?q + 1 else ?q)"
    let ?T = "(2::int) ^ nat (- ?t)"
    have q0: "0 \<le> ?q" by (simp add: pos_imp_zdiv_nonneg_iff)
    have "?q \<le> \<bar>M0\<bar>"
    proof (cases "M0 = 0")
      case True
      then show ?thesis by simp
    next
      case False
      then show ?thesis by (intro int_div_le_self) simp
    qed
    then have qlt: "?q < 2 ^ 106" using M0 by linarith
    have up: "?q' \<le> ?q + 1" by (rule if_succ_upper)
    then have q'lt: "?q' < 2 ^ 107" using qlt by (rule below_107)
    have lo: "?q \<le> ?q'" by (rule if_succ_lower)
    with q0 have q'0: "0 \<le> ?q'" by (rule order_trans)
    have "bit_length ?q' \<le> 107" by (rule bit_length_le [OF q'0 q'lt])
    with t have fin: "\<not> int (bit_length ?q') + ?t > 1024" by linarith
    from False fin have r: "round_to_double M0 E = Finite (sgn M0 * ?q') ?t"
      by (simp only: round_to_double_def Let_def if_True if_False)
    have Q: "?q \<le> sgn M0 * ?q' \<and> sgn M0 * ?q' \<le> ?q + 1"
    proof (cases "M0 = 0")
      case True
      then show ?thesis by simp
    next
      case False
      with M0 have "sgn M0 = 1" by simp
      with lo up show ?thesis by (simp only: mult_1)
    qed
    then have Q0: "0 \<le> sgn M0 * ?q'" using q0 by linarith
    have T: "0 < ?T" by simp
    from cut_between [OF T conjunct1 [OF Q] conjunct2 [OF Q]]
    have sand: "?q div ?T \<le> (sgn M0 * ?q') div ?T \<and> (sgn M0 * ?q') div ?T \<le> ?q div ?T + 1" .
    have "nat (- E) = ?k + nat (- ?t)" using False t by (rule nat_neg_split')
    then have p: "(2::int) ^ nat (- E) = 2 ^ ?k * ?T" by (simp only: power_add)
    have abs: "\<bar>M0\<bar> = M0" using M0 by simp
    have eq: "?q div ?T = M0 div 2 ^ nat (- E)"
      unfolding p abs by (simp add: zdiv_zmult2_eq)
    note sand' = sand [unfolded eq]
    have i: "int_of_float (Finite (sgn M0 * ?q') ?t) = Inr ((sgn M0 * ?q') div ?T)"
      using t Q0 by (rule int_of_float_cut)
    show ?thesis unfolding r i
      by (rule exI [of _ "(sgn M0 * ?q') div ?T"]) (simp only: sand' simp_thms)
  qed
qed


lemma float_of_int_1000: "float_of_int 1000 = Finite 8796093022208000 (- 43)"
  by code_simp

lemma round_zero: "E \<le> 1024 \<Longrightarrow> int_of_float (round_to_double 0 E) = Inr 0"
  by (simp add: round_to_double_def Let_def bit_length.simps)

lemma pow43_split: "e \<le> 43 \<Longrightarrow> 0 \<le> e \<Longrightarrow> (2::int) ^ 43 = 2 ^ nat e * 2 ^ nat (43 - e)"
proof -
  assume "e \<le> 43" "0 \<le> e"
  then have "(43::nat) = nat e + nat (43 - e)" by arith
  then have "(2::int) ^ 43 = 2 ^ (nat e + nat (43 - e))" by simp
  then show ?thesis by (simp only: power_add)
qed

lemma pow43_join: "e < 0 \<Longrightarrow> (2::int) ^ nat (43 - e) = 2 ^ 43 * 2 ^ nat (- e)"
proof -
  assume "e < 0"
  then have "nat (43 - e) = 43 + nat (- e)" by arith
  then show ?thesis by (simp only: power_add)
qed

lemma scaled_whole_millis:
  assumes "e \<le> 42"
  shows "(m * 8796093022208000) div 2 ^ nat (43 - e) = whole_millis (Finite m e)"
proof (cases "0 \<le> e")
  case True
  have c: "(8796093022208000::int) = 1000 * 2 ^ 43" by simp
  have eq: "m * 8796093022208000 = (m * 1000 * 2 ^ nat e) * 2 ^ nat (43 - e)"
    unfolding c using pow43_split [of e] assms True by simp
  have "(m * 8796093022208000) div 2 ^ nat (43 - e)
      = ((m * 1000 * 2 ^ nat e) * 2 ^ nat (43 - e)) div 2 ^ nat (43 - e)"
    by (simp only: eq)
  also have "\<dots> = m * 1000 * 2 ^ nat e" by simp
  also have "\<dots> = whole_millis (Finite m e)" using True by simp
  finally show ?thesis .
next
  case False
  then have e: "e < 0" by simp
  have c: "m * 8796093022208000 = 2 ^ 43 * (m * 1000)" by simp
  have "(m * 8796093022208000) div 2 ^ nat (43 - e)
      = (2 ^ 43 * (m * 1000)) div (2 ^ 43 * 2 ^ nat (- e))"
    by (simp only: c pow43_join [OF e])
  also have "\<dots> = (m * 1000) div 2 ^ nat (- e)" by (rule div_mult_mult1) simp
  also have "\<dots> = whole_millis (Finite m e)" using False by simp
  finally show ?thesis .
qed

lemma scaled_small:
  assumes m: "0 \<le> m" and e: "e \<le> 42"
    and le: "float_le (Finite m e) (Finite 1000000000000 0)"
  shows "m * 8796093022208000 < 2 ^ (52 + nat (43 - e))"
proof -
  let ?B = "(2::int) ^ nat (43 - e)"
  have B: "0 < ?B" by simp
  have bound: "m * 8796093022208000 \<le> 1000000000000000 * ?B"
  proof (cases "0 \<le> e")
    case True
    have c: "(8796093022208000::int) = 1000 * 2 ^ 43" by simp
    have eq: "m * 8796093022208000 = (m * 2 ^ nat e * 1000) * ?B"
      unfolding c using pow43_split [of e] e True by simp
    have "m * 2 ^ nat e \<le> 1000000000000"
    proof (cases "e = 0")
      case True
      with le show ?thesis by simp
    next
      case False
      with True le show ?thesis by simp
    qed
    then have "m * 2 ^ nat e * 1000 \<le> 1000000000000000" by simp
    then show ?thesis unfolding eq using B by (intro mult_right_mono) simp_all
  next
    case False
    then have e0: "e < 0" by simp
    with le have "m \<le> 1000000000000 * 2 ^ nat (- e)" by simp
    then have "m * 8796093022208000 \<le> (1000000000000 * 2 ^ nat (- e)) * 8796093022208000"
      by (intro mult_right_mono) simp_all
    also have "\<dots> = 1000000000000000 * (2 ^ 43 * 2 ^ nat (- e))" by simp
    finally show ?thesis unfolding pow43_join [OF e0] .
  qed
  have "1000000000000000 * ?B < 2 ^ 52 * ?B" using B by (intro mult_strict_right_mono) simp_all
  also have "\<dots> = 2 ^ (52 + nat (43 - e))" by (simp only: power_add)
  finally show ?thesis using bound by linarith
qed

lemma exponent_below_43:
  assumes "0 < m" "float_le (Finite m e) (Finite 1000000000000 0)"
  shows "e \<le> 42"
proof (rule ccontr)
  assume "\<not> e \<le> 42"
  then have e: "43 \<le> e" by simp
  with assms(2) have le: "m * 2 ^ nat e \<le> 1000000000000" by simp
  have "(2::int) ^ 43 \<le> 2 ^ nat e" using e by (intro power_increasing) simp_all
  moreover have "(2::int) ^ nat e \<le> m * 2 ^ nat e" using assms(1) by simp
  ultimately have "(2::int) ^ 43 \<le> 1000000000000" using le by linarith
  then show False by simp
qed

lemma format_timestamp_spec:
  assumes "time_ok x"
  shows "\<exists>ms. millis_for x ms \<and> format_timestamp x = Inr (spec_hms ms)"
proof -
  from assms obtain m e where x: "x = Finite m e"
    by (cases x) (simp_all add: time_ok_def)
  with assms have m: "0 \<le> m" "m < 2 ^ 53"
    and e: "e \<le> 971" and le: "float_le (Finite m e) (Finite 1000000000000 0)"
    by (simp_all add: time_ok_def del: float_le.simps)
  have mul: "float_mul x (float_of_int 1000) = round_to_double (m * 8796093022208000) (e + - 43)"
    unfolding x float_of_int_1000 by simp
  have "\<exists>M. int_of_float (round_to_double (m * 8796093022208000) (e + - 43)) = Inr M
      \<and> whole_millis x \<le> M \<and> M \<le> whole_millis x + 1 \<and> 0 \<le> M"
  proof (cases "m = 0")
    case True
    have "e + - 43 \<le> 1024" using e by simp
    from round_zero [OF this] show ?thesis by (simp add: True x)
  next
    case False
    with m have pos: "0 < m" by simp
    from exponent_below_43 [OF pos le] have e42: "e \<le> 42" .
    have neg: "e + - 43 < 0" using e42 by simp
    have n: "nat (- (e + - 43)) = nat (43 - e)" by simp
    have "m * 8796093022208000 < 2 ^ 53 * 2 ^ 53"
      using m by (intro mult_strict_mono) simp_all
    then have lt: "m * 8796093022208000 < 2 ^ 106" by simp
    have M0: "0 \<le> m * 8796093022208000" using m by simp
    have small: "m * 8796093022208000 < 2 ^ (52 + nat (- (e + - 43)))"
      unfolding n by (rule scaled_small [OF m(1) e42 le])
    from trunc_round_sandwich [OF M0 lt neg small] obtain M where
      M: "int_of_float (round_to_double (m * 8796093022208000) (e + - 43)) = Inr M"
      and lo: "m * 8796093022208000 div 2 ^ nat (- (e + - 43)) \<le> M"
      and hi: "M \<le> m * 8796093022208000 div 2 ^ nat (- (e + - 43)) + 1"
      by blast
    have w: "m * 8796093022208000 div 2 ^ nat (- (e + - 43)) = whole_millis x"
      unfolding n x by (rule scaled_whole_millis [OF e42])
    have "0 \<le> m * 8796093022208000 div 2 ^ nat (- (e + - 43))"
      using M0 by (simp add: pos_imp_zdiv_nonneg_iff)
    with lo have "0 \<le> M" by linarith
    with M lo hi show ?thesis unfolding w by blast
  qed
  then obtain M where M: "int_of_float (round_to_double (m * 8796093022208000) (e + - 43)) = Inr M"
    and lo: "whole_millis x \<le> M" and hi: "M \<le> whole_millis x + 1" and M0: "0 \<le> M"
    by blast
  have "format_timestamp x = Inr (format_millis M)"
    unfolding format_timestamp_def mul by (simp only: M sum.case)
  then have "format_timestamp x = Inr (spec_hms (nat M))"
    by (simp only: format_millis_spec [OF M0])
  moreover have "millis_for x (nat M)" using lo hi M0 by (simp add: millis_for_def)
  ultimately show ?thesis by blast
qed


lemma digits_ge_100: "100 \<le> h \<Longrightarrow> 3 \<le> length (digits h)"
proof -
  assume "100 \<le> h"
  then have "10 \<le> h" "10 \<le> h div 10" by simp_all
  then show ?thesis
    using digits_nonempty [of "h div 10 div 10"]
    by (simp add: digits_ge_10 Suc_le_eq)
qed

lemma is_hms_spec_hms_iff: "is_hms (spec_hms ms) \<longleftrightarrow> ms < 360000000"
proof (cases "ms < 360000000")
  case True
  then show ?thesis by (simp add: is_hms_spec_hms)
next
  case False
  then have h: "100 \<le> ms div 3600000" by simp
  then have "\<not> ms div 3600000 < 100" by simp
  then have "length (spec_hms ms) = length (digits (ms div 3600000)) + 10"
    by (simp add: spec_hms_def two_digit_def three_digit_def)
  with digits_ge_100 [OF h] have "length (spec_hms ms) \<noteq> 12" by simp
  with False show ?thesis by (simp add: is_hms_def)
qed

subsection \<open>The written file\<close>

lemma zip_shift:
  "zip [0..<length (x # xs)] (x # xs) = (0, x) # map (\<lambda>(j, y). (Suc j, y)) (zip [0..<length xs] xs)"
proof -
  have "[0..<length (x # xs)] = 0 # map Suc [0..<length xs]"
    by (simp add: upt_conv_Cons map_Suc_upt del: upt_Suc)
  then show ?thesis by (simp add: zip_map1 del: upt_Suc)
qed

lemma write_entries_spec:
  assumes "\<forall>s \<in> set segs. valid_segment s"
  shows "\<exists>stamps. length stamps = length segs
     \<and> (\<forall>i buf. write_entries (Suc i) segs buf =
           (Inr (), buf @ concat (map (\<lambda>(j, s, a, b). spec_entry (Suc (i + j)) a b (seg_text s))
                                   (zip [0..<length segs] (zip segs stamps)))))
     \<and> (\<forall>(s, a, b) \<in> set (zip segs stamps).
           millis_for (seg_start s) a \<and> millis_for (seg_end s) b)"
  using assms
proof (induction segs)
  case Nil
  show ?case by simp
next
  case (Cons s ss)
  from Cons.prems have v: "valid_segment s" and rest: "\<forall>s \<in> set ss. valid_segment s"
    by simp_all
  from Cons.IH [OF rest] obtain stamps where len: "length stamps = length ss"
    and wr: "\<And>i buf. write_entries (Suc i) ss buf =
           (Inr (), buf @ concat (map (\<lambda>(j, s, a, b). spec_entry (Suc (i + j)) a b (seg_text s))
                                   (zip [0..<length ss] (zip ss stamps))))"
    and ms: "\<forall>(s, a, b) \<in> set (zip ss stamps).
           millis_for (seg_start s) a \<and> millis_for (seg_end s) b"
    by blast
  from v have "time_ok (seg_start s)" "time_ok (seg_end s)" by (simp_all add: valid_segment_def)
  then obtain a b where a: "millis_for (seg_start s) a" "format_timestamp (seg_start s) = Inr (spec_hms a)"
    and b: "millis_for (seg_end s) b" "format_timestamp (seg_end s) = Inr (spec_hms b)"
    using format_timestamp_spec by blast
  let ?stamps = "(a, b) # stamps"
  have l: "length ?stamps = length (s # ss)" using len by simp
  have z: "zip [0..<length (s # ss)] (zip (s # ss) ?stamps)
      = (0, s, a, b) # map (\<lambda>(j, y). (Suc j, y)) (zip [0..<length ss] (zip ss stamps))"
    using zip_shift [of "(s, a, b)" "zip ss stamps"] len by simp
  have entry: "\<And>i. srt_entry i (spec_hms a) (spec_hms b) (strip (seg_text s))
      = spec_entry i a b (seg_text s)"
    by (simp add: srt_entry_def spec_entry_def)
  have w: "\<forall>i buf. write_entries (Suc i) (s # ss) buf =
           (Inr (), buf @ concat (map (\<lambda>(j, s, a, b). spec_entry (Suc (i + j)) a b (seg_text s))
                                   (zip [0..<length (s # ss)] (zip (s # ss) ?stamps))))"
    unfolding z
    by (simp add: a(2) b(2) entry wr map_map comp_def case_prod_unfold)
  have m: "\<forall>(s, a, b) \<in> set (zip (s # ss) ?stamps).
           millis_for (seg_start s) a \<and> millis_for (seg_end s) b"
    using ms a(1) b(1) by simp
  from l w m show ?case by blast
qed

text \<open>
  C6. The claim as stated fails from 100 hours on: a segment that starts at 360000 s
  is a Segment (start not negative, end after start), and its time range is written
  with three digits for the hours, which is not the shape \<open>HH:MM:SS,mmm\<close>.
\<close>

theorem hundred_hours_three_digits:
  "valid_segment \<lparr>seg_start = Finite 360000 0, seg_end = Finite 360001 0, seg_text = ''late''\<rparr>
   \<and> generate_srt None
       [\<lparr>seg_start = Finite 360000 0, seg_end = Finite 360001 0, seg_text = ''late''\<rparr>]
       ''uploads/late.srt'' Map.empty
     = (Inr (), [''uploads/late.srt'' \<mapsto> SrtText
          (''1'' @ [CHR 0x0A] @ ''100:00:00,000 --> 100:00:01,000'' @ [CHR 0x0A]
           @ ''late'' @ [CHR 0x0A, CHR 0x0A])])
   \<and> \<not> is_hms ''100:00:00,000''"
proof -
  have w: "write_entries 1
       [\<lparr>seg_start = Finite 360000 0, seg_end = Finite 360001 0, seg_text = ''late''\<rparr>] []
     = (Inr (), ''1'' @ [CHR 0x0A] @ ''100:00:00,000 --> 100:00:01,000'' @ [CHR 0x0A]
           @ ''late'' @ [CHR 0x0A, CHR 0x0A])"
    by code_simp
  have v: "valid_segment
      \<lparr>seg_start = Finite 360000 0, seg_end = Finite 360001 0, seg_text = ''late''\<rparr>"
    by (simp add: valid_segment_def time_ok_def)
  have h: "\<not> is_hms ''100:00:00,000''" by (simp add: is_hms_def)
  have g: "generate_srt None
       [\<lparr>seg_start = Finite 360000 0, seg_end = Finite 360001 0, seg_text = ''late''\<rparr>]
       ''uploads/late.srt'' Map.empty
     = (Inr (), [''uploads/late.srt'' \<mapsto> SrtText
          (''1'' @ [CHR 0x0A] @ ''100:00:00,000 --> 100:00:01,000'' @ [CHR 0x0A]
           @ ''late'' @ [CHR 0x0A, CHR 0x0A])])"
    unfolding generate_srt_def w by simp
  from v g h show ?thesis by (intro conjI)
qed

text \<open>
  C6, amended. For segments with finite times that are not negative and at most
  \<open>10 ^ 12\<close> seconds, each ending no earlier than it starts, \<open>generate_srt\<close> returns
  normally and leaves a file of one entry per segment, in order and numbered from 1: the
  index line, the line of the two timestamps joined by an arrow, the trimmed text and
  a blank line. Each timestamp is the text of a count of milliseconds that is the whole
  milliseconds of the time or one more, with minutes and seconds in two digits and
  milliseconds in three; it has the shape \<open>HH:MM:SS,mmm\<close> exactly when that count is
  below 100 hours, and more digits for the hours beyond.
\<close>

theorem generate_srt_entries:
  assumes "\<forall>s \<in> set segments. valid_segment s"
  shows "\<exists>stamps. length stamps = length segments
     \<and> generate_srt None segments srt_path fs
         = (Inr (), fs(srt_path \<mapsto> SrtText (spec_srt segments stamps)))
     \<and> (\<forall>(s, a, b) \<in> set (zip segments stamps).
           millis_for (seg_start s) a \<and> millis_for (seg_end s) b
           \<and> is_hms (spec_hms a) = (a < 360000000)
           \<and> is_hms (spec_hms b) = (b < 360000000))"
proof -
  from write_entries_spec [OF assms] obtain stamps where len: "length stamps = length segments"
    and wr: "\<And>i buf. write_entries (Suc i) segments buf =
           (Inr (), buf @ concat (map (\<lambda>(j, s, a, b). spec_entry (Suc (i + j)) a b (seg_text s))
                                   (zip [0..<length segments] (zip segments stamps))))"
    and ms: "\<forall>(s, a, b) \<in> set (zip segments stamps).
           millis_for (seg_start s) a \<and> millis_for (seg_end s) b"
    by blast
  have "write_entries (Suc 0) segments [] = (Inr (), spec_srt segments stamps)"
    using wr [of 0 "[]"] by (simp add: spec_srt_def)
  then have g: "generate_srt None segments srt_path fs
      = (Inr (), fs(srt_path \<mapsto> SrtText (spec_srt segments stamps)))"
    by (simp add: generate_srt_def)
  have "\<forall>(s, a, b) \<in> set (zip segments stamps).
           millis_for (seg_start s) a \<and> millis_for (seg_end s) b
           \<and> is_hms (spec_hms a) = (a < 360000000)
           \<and> is_hms (spec_hms b) = (b < 360000000)"
    using ms by (auto simp: is_hms_spec_hms_iff)
  with len g show ?thesis by blast
qed

theorem generate_srt_entries_witness:
  "\<exists>stamps. length stamps = 2
     \<and> generate_srt None
         [\<lparr>seg_start = Finite 0 0, seg_end = Finite 5 (- 1), seg_text = ''  Hello there ''\<rparr>,
          \<lparr>seg_start = Finite 5 (- 1), seg_end = Finite 4 0, seg_text = ''world''\<rparr>]
         ''uploads/clip.srt'' Map.empty
       = (Inr (), [''uploads/clip.srt'' \<mapsto> SrtText (spec_srt
           [\<lparr>seg_start = Finite 0 0, seg_end = Finite 5 (- 1), seg_text = ''  Hello there ''\<rparr>,
            \<lparr>seg_start = Finite 5 (- 1), seg_end = Finite 4 0, seg_text = ''world''\<rparr>]
           stamps)])
     \<and> list_all (\<lambda>(a, b). a \<le> 2501 \<and> b \<le> 4001 \<and> is_hms (spec_hms a) \<and> is_hms (spec_hms b))
          stamps"
proof -
  let ?s1 = "\<lparr>seg_start = Finite 0 0, seg_end = Finite 5 (- 1), seg_text = ''  Hello there ''\<rparr>"
  let ?s2 = "\<lparr>seg_start = Finite 5 (- 1), seg_end = Finite 4 0, seg_text = ''world''\<rparr>"
  have v: "\<forall>s \<in> set [?s1, ?s2]. valid_segment s"
    by (simp add: valid_segment_def time_ok_def)
  from generate_srt_entries [OF v, of "''uploads/clip.srt''" Map.empty]
  obtain stamps where len0: "length stamps = length [?s1, ?s2]"
    and g: "generate_srt None [?s1, ?s2] ''uploads/clip.srt'' Map.empty
       = (Inr (), [''uploads/clip.srt'' \<mapsto> SrtText (spec_srt [?s1, ?s2] stamps)])"
    and ms: "\<forall>(s, a, b) \<in> set (zip [?s1, ?s2] stamps).
           millis_for (seg_start s) a \<and> millis_for (seg_end s) b
           \<and> is_hms (spec_hms a) = (a < 360000000)
           \<and> is_hms (spec_hms b) = (b < 360000000)"
    by blast
  from len0 have len: "length stamps = 2" by simp
  from len obtain p1 p2 where st: "stamps = [p1, p2]"
    by (auto simp: length_Suc_conv numeral_2_eq_2)
  obtain a1 b1 a2 b2 where p: "p1 = (a1, b1)" "p2 = (a2, b2)" by (cases p1, cases p2) blast
  from ms have "list_all (\<lambda>(a, b). a \<le> 2501 \<and> b \<le> 4001 \<and> is_hms (spec_hms a)
      \<and> is_hms (spec_hms b)) stamps"
    unfolding st p by (simp add: millis_for_def)
  with len g show ?thesis by blast
qed

text \<open>
  C5. The float \<open>3661.234\<close> is formatted as \<open>01:01:01,234\<close>: its thousandfold rounds to
  the double 3661234 exactly, which splits into 1 hour, 1 minute, 1 second and 234
  milliseconds.
\<close>

theorem format_timestamp_3661_234:
  "format_timestamp (float_of_ratio 3661234 1000) = Inr ''01:01:01,234''"
  by code_simp

text \<open>
  C7. Serializing the same segments to the same path a second time leaves the file
  system, and so the bytes of the file, as the first run left them, and returns the same
  result; this holds on the failing runs as well.
\<close>

theorem generate_srt_idempotent:
  "generate_srt open_err segments srt_path (snd (generate_srt open_err segments srt_path fs))
     = generate_srt open_err segments srt_path fs"
  by (cases open_err; cases "write_entries 1 segments []") (simp_all add: generate_srt_def)

section \<open>Properties of summarize_text\<close>

lemma summarize_body_ok:
  assumes "summarize_body translate summarizer text input_lang output_lang w = (Inr r, w')"
  shows "\<exists>processed english_summary final.
     field r ''summarized_in_english'' = Some english_summary
     \<and> field r ''summary'' = Some final
     \<and> log w' = log w
         @ (if input_lang \<noteq> ''en'' then [Done (Translate text ''en'')] else [])
         @ [Done (Summarize (''Summarize: '' @ processed))]
         @ (if output_lang \<noteq> ''en'' \<and> output_lang \<noteq> input_lang
            then [Done (Translate english_summary output_lang)] else [])
     \<and> (if output_lang \<noteq> ''en'' \<and> output_lang \<noteq> input_lang
         then translate english_summary output_lang = Inr final
         else final = english_summary)"
  using assms
  by (auto simp: summarize_body_def bind_def ret_def raise_def ext_call_def
      split: if_splits sum.splits prod.splits)

text \<open>
  C8. On every run of \<open>summarize_text\<close> that returns a response, the translator is
  called on the English summary exactly when \<open>output_lang\<close> is neither \<open>en\<close> nor
  \<open>input_lang\<close>, as the last call of the run, and the field \<open>summary\<close> is then its result;
  otherwise no call follows the summarizer and \<open>summary\<close> is the English summary itself.
\<close>

theorem summary_translation_decision:
  assumes "summarize_text env text input_lang output_lang w = (Inr r, w')"
  shows "\<exists>translate processed english_summary final.
     global_translator env = Some translate
     \<and> field r ''summarized_in_english'' = Some english_summary
     \<and> field r ''summary'' = Some final
     \<and> log w' = log w
         @ (if input_lang \<noteq> ''en'' then [Done (Translate text ''en'')] else [])
         @ [Done (Summarize (''Summarize: '' @ processed))]
         @ (if output_lang \<noteq> ''en'' \<and> output_lang \<noteq> input_lang
            then [Done (Translate english_summary output_lang)] else [])
     \<and> (if output_lang \<noteq> ''en'' \<and> output_lang \<noteq> input_lang
         then translate english_summary output_lang = Inr final
         else final = english_summary)"
proof -
  from assms obtain translate summarizer where
    tr: "global_translator env = Some translate" and
    body: "summarize_body translate summarizer text input_lang output_lang w = (Inr r, w')"
    by (auto simp: summarize_text_def split: option.splits if_splits sum.splits prod.splits)
  from summarize_body_ok [OF body] tr show ?thesis by blast
qed

lemma summarize_fox_fr:
  "summarize_text env_ok fox_text ''en'' ''fr'' world0 =
     (Inr (JSONResponse
        [(''original_text'', fox_text),
         (''processed_for_summarization'', fox_text),
         (''summary'', ''[fr] A fox jumps over a dog.''),
         (''summarized_in_english'', ''A fox jumps over a dog.''),
         (''input_language'', ''en''),
         (''output_language'', ''fr'')] 200),
      world0\<lparr>log := [Done (Summarize (''Summarize: '' @ fox_text)),
                      Done (Translate ''A fox jumps over a dog.'' ''fr'')]\<rparr>)"
  by (simp add: summarize_text_def summarize_body_def bind_def ret_def raise_def ext_call_def
      env_ok_def world0_def fox_text_def strip_def is_space_def split_ws_def)

theorem summary_translation_decision_witness:
  "\<exists>translate processed english_summary final.
     global_translator env_ok = Some translate
     \<and> field (JSONResponse
        [(''original_text'', fox_text),
         (''processed_for_summarization'', fox_text),
         (''summary'', ''[fr] A fox jumps over a dog.''),
         (''summarized_in_english'', ''A fox jumps over a dog.''),
         (''input_language'', ''en''),
         (''output_language'', ''fr'')] 200) ''summarized_in_english'' = Some english_summary
     \<and> final = ''[fr] A fox jumps over a dog.''
     \<and> [Done (Summarize (''Summarize: '' @ fox_text)),
         Done (Translate ''A fox jumps over a dog.'' ''fr'')]
        = [Done (Summarize (''Summarize: '' @ processed)), Done (Translate english_summary ''fr'')]
     \<and> translate english_summary ''fr'' = Inr final"
  using summary_translation_decision [OF summarize_fox_fr]
  by (simp add: world0_def)

text \<open>
  C9, the length checks that hold: with both models loaded, a text that is blank or
  shorter than 100 characters is refused with status 400 before any call is made.
\<close>

lemma summarize_text_too_short:
  assumes "global_summarizer env = Some summarizer" "global_translator env = Some translate"
    and "strip text = [] \<or> length text < 100"
  shows "\<exists>detail. summarize_text env text input_lang output_lang w
            = (Inl (HTTPException 400 detail), w)"
  using assms by (auto simp: summarize_text_def)

text \<open>
  C9, the word check: a text of 104 characters and three words passes the two length
  checks, and the \<open>HTTPException\<close> with status 400 that line 162 raises is caught by the
  handler of line 190 and leaves the endpoint as status 500. No model has been called.
\<close>

theorem summarize_text_few_words_500:
  "summarize_text env_ok three_long_words ''en'' ''en'' world0 =
     (Inl (HTTPException 500
        ''Summarization failed: 400: Translated text is too short for meaningful summarization. Please provide more input.''),
      world0)"
  by (simp add: summarize_text_def summarize_body_def bind_def ret_def raise_def env_ok_def
      three_long_words_def strip_def is_space_def split_ws_def summarize_handler_def
      digits.simps digit_char_def)

section \<open>Traces and invariants of the endpoints\<close>

lemma traced_ret: "traced P (ret x)"
  by (simp add: traced_def ret_def)

lemma traced_ext_call: "P c \<Longrightarrow> traced P (ext_call c r)"
  by (cases r) (simp_all add: traced_def ext_call_def)

lemma traced_write_media: "P c \<Longrightarrow> traced P (write_media c p r)"
  by (cases r) (simp_all add: traced_def write_media_def)

lemma traced_open_video_clip: "P (OpenVideoClip p) \<Longrightarrow> traced P (open_video_clip env p)"
  by (cases "open_clip_result env") (simp_all add: traced_def open_video_clip_def)

lemma traced_open_audio_clip: "P (OpenAudioClip p) \<Longrightarrow> traced P (open_audio_clip env p)"
  unfolding open_audio_clip_def by (rule traced_ext_call)

lemma traced_close_clip: "P CloseClip \<Longrightarrow> traced P (close_clip r)"
  by (cases r) (simp_all add: traced_def close_clip_def)

lemma traced_remove_file: "P (RemoveFile p) \<Longrightarrow> traced P (remove_file env p)"
  by (cases "remove_result env p") (simp_all add: traced_def remove_file_def)

lemma traced_skip: "traced P (\<lambda>w. (Inr (), w))"
  by (simp add: traced_def)

lemma traced_remove_if_exists: "P (RemoveFile p) \<Longrightarrow> traced P (remove_if_exists env p)"
  using traced_remove_file [of P p env] by (simp add: traced_def remove_if_exists_def)

lemma traced_close_if_clip: "P CloseClip \<Longrightarrow> traced P (close_if_clip env)"
  using traced_close_clip [of P "cleanup_close_result env"]
  by (simp add: traced_def close_if_clip_def)

lemma traced_run_generate_srt: "P (GenerateSrt p) \<Longrightarrow> traced P (run_generate_srt env segments p)"
  by (simp add: traced_def run_generate_srt_def split: prod.splits sum.splits)

lemma traced_if: "traced P a \<Longrightarrow> traced P b \<Longrightarrow> traced P (if c then a else b)"
  by simp

lemma traced_bind:
  assumes m: "traced P m" and f: "\<And>x. traced P (f x)"
  shows "traced P (bind m f)"
  unfolding traced_def
proof
  fix w
  from m obtain evs where evs: "log (snd (m w)) = log w @ evs"
    "list_all (\<lambda>ev. P (call_of ev)) evs"
    "case fst (m w) of Inr v \<Rightarrow> list_all is_done evs
       | Inl e \<Rightarrow> \<exists>pre c. evs = pre @ [Failed c e] \<and> list_all is_done pre"
    unfolding traced_def by blast
  show "\<exists>evs. log (snd (bind m f w)) = log w @ evs \<and> list_all (\<lambda>ev. P (call_of ev)) evs
        \<and> (case fst (bind m f w) of
              Inr v \<Rightarrow> list_all is_done evs
            | Inl e \<Rightarrow> \<exists>pre c. evs = pre @ [Failed c e] \<and> list_all is_done pre)"
  proof (cases "fst (m w)")
    case (Inl e)
    then have "bind m f w = (Inl e, snd (m w))"
      by (cases "m w") (simp add: bind_def)
    with evs Inl show ?thesis by auto
  next
    case (Inr x)
    then have b: "bind m f w = f x (snd (m w))"
      by (cases "m w") (simp add: bind_def)
    from f [of x] obtain evs2 where evs2: "log (snd (f x (snd (m w)))) = log (snd (m w)) @ evs2"
      "list_all (\<lambda>ev. P (call_of ev)) evs2"
      "case fst (f x (snd (m w))) of Inr v \<Rightarrow> list_all is_done evs2
         | Inl e \<Rightarrow> \<exists>pre c. evs2 = pre @ [Failed c e] \<and> list_all is_done pre"
      unfolding traced_def by blast
    from evs(3) Inr have d1: "list_all is_done evs" by simp
    have "log (snd (bind m f w)) = log w @ (evs @ evs2)"
      by (simp add: b evs2(1) evs(1))
    moreover have "list_all (\<lambda>ev. P (call_of ev)) (evs @ evs2)"
      using evs(2) evs2(2) by simp
    moreover have "case fst (bind m f w) of
              Inr v \<Rightarrow> list_all is_done (evs @ evs2)
            | Inl e \<Rightarrow> \<exists>pre c. evs @ evs2 = pre @ [Failed c e] \<and> list_all is_done pre"
    proof (cases "fst (f x (snd (m w)))")
      case (Inl e)
      with evs2(3) obtain pre c where "evs2 = pre @ [Failed c e]" "list_all is_done pre"
        by auto
      then have "evs @ evs2 = (evs @ pre) @ [Failed c e]" "list_all is_done (evs @ pre)"
        using d1 by simp_all
      then show ?thesis unfolding b Inl by (simp only: sum.case) blast
    next
      case (Inr v)
      with evs2(3) d1 show ?thesis unfolding b by simp
    qed
    ultimately show ?thesis by blast
  qed
qed

lemmas traced_intros =
  traced_bind traced_ret traced_ext_call traced_write_media traced_open_video_clip
  traced_open_audio_clip traced_close_clip traced_remove_if_exists traced_close_if_clip
  traced_run_generate_srt traced_if

lemma traced_upload_audio_body:
  "traced (\<lambda>c. \<not> is_remove c) (upload_audio_body env whisper translate filename)"
  unfolding upload_audio_body_def Let_def
  by (intro traced_intros) simp_all

lemma traced_generate_subtitles_body:
  "traced (\<lambda>c. \<not> is_remove c) (generate_subtitles_body env whisper translate filename lang)"
  unfolding generate_subtitles_body_def Let_def
  by (intro traced_intros) simp_all

lemma traced_video_translate_body:
  "traced (\<lambda>c. \<not> is_remove c) (video_translate_body env whisper translate filename lang)"
  unfolding video_translate_body_def Let_def
  by (intro traced_intros) simp_all

lemma traced_upload_audio_cleanup: "traced teardown_call (upload_audio_cleanup env filename)"
  unfolding upload_audio_cleanup_def
  by (intro traced_intros) (simp_all add: teardown_call_def)

lemma traced_generate_subtitles_cleanup:
  "traced teardown_call (generate_subtitles_cleanup env filename)"
  unfolding generate_subtitles_cleanup_def
  by (intro traced_intros) (simp_all add: teardown_call_def)

lemma traced_video_translate_cleanup:
  "traced teardown_call (video_translate_cleanup env filename)"
  unfolding video_translate_cleanup_def
  by (intro traced_intros) (simp_all add: teardown_call_def)


subsection \<open>The shape of a run\<close>

lemma tracedD:
  assumes "traced P m" "m w = (r, w')"
  shows "\<exists>evs. log w' = log w @ evs \<and> list_all (\<lambda>ev. P (call_of ev)) evs
     \<and> (case r of Inr v \<Rightarrow> list_all is_done evs
         | Inl e \<Rightarrow> \<exists>pre c. evs = pre @ [Failed c e] \<and> list_all is_done pre)"
proof -
  from assms(1) have "\<exists>evs. log (snd (m w)) = log w @ evs
      \<and> list_all (\<lambda>ev. P (call_of ev)) evs
      \<and> (case fst (m w) of Inr v \<Rightarrow> list_all is_done evs
          | Inl e \<Rightarrow> \<exists>pre c. evs = pre @ [Failed c e] \<and> list_all is_done pre)"
    unfolding traced_def by (rule spec)
  then show ?thesis by (simp only: assms(2) fst_conv snd_conv)
qed

lemma try_except_finally_traced:
  assumes tb: "traced Pb body" and tc: "traced Pc cleanup"
    and run: "try_except_finally body h cleanup w = (r, w')"
  shows "\<exists>evs1 evs2 rb (rc :: exn + unit).
     log w' = log w @ evs1 @ evs2
     \<and> list_all (\<lambda>ev. Pb (call_of ev)) evs1 \<and> list_all (\<lambda>ev. Pc (call_of ev)) evs2
     \<and> (case rb of Inr v \<Rightarrow> list_all is_done evs1
         | Inl e \<Rightarrow> \<exists>pre c. evs1 = pre @ [Failed c e] \<and> list_all is_done pre)
     \<and> (case rc of Inr v \<Rightarrow> list_all is_done evs2
         | Inl e \<Rightarrow> \<exists>pre c. evs2 = pre @ [Failed c e] \<and> list_all is_done pre)
     \<and> r = (case rc of Inl e2 \<Rightarrow> Inl e2
             | Inr u \<Rightarrow> (case rb of Inl e \<Rightarrow> Inl (h e) | Inr v \<Rightarrow> Inr v))"
proof -
  obtain rb w1 where b: "body w = (rb, w1)" by (cases "body w")
  obtain rc w2 where c: "cleanup w1 = (rc, w2)" by (cases "cleanup w1")
  from tb obtain evs1 where e1: "log w1 = log w @ evs1" "list_all (\<lambda>ev. Pb (call_of ev)) evs1"
    "case rb of Inr v \<Rightarrow> list_all is_done evs1
       | Inl e \<Rightarrow> \<exists>pre c. evs1 = pre @ [Failed c e] \<and> list_all is_done pre"
    using tracedD [OF tb b] by blast
  from tc obtain evs2 where e2: "log w2 = log w1 @ evs2" "list_all (\<lambda>ev. Pc (call_of ev)) evs2"
    "case rc of Inr v \<Rightarrow> list_all is_done evs2
       | Inl e \<Rightarrow> \<exists>pre c. evs2 = pre @ [Failed c e] \<and> list_all is_done pre"
    using tracedD [OF tc c] by blast
  from run b c have w': "w' = w2"
    and r: "r = (case rc of Inl e2 \<Rightarrow> Inl e2
             | Inr u \<Rightarrow> (case rb of Inl e \<Rightarrow> Inl (h e) | Inr v \<Rightarrow> Inr v))"
    by (auto simp: try_except_finally_def split: sum.splits)
  have lg: "log w' = log w @ evs1 @ evs2" by (simp add: w' e2(1) e1(1))
  from lg e1(2,3) e2(2,3) r show ?thesis by blast
qed

lemma first_failure_unique:
  assumes "list_all is_done xs" "list_all is_done ys"
    and "xs @ Failed c e # p = ys @ Failed c' e' # q"
  shows "xs = ys \<and> c = c' \<and> e = e' \<and> p = q"
  using assms
proof (induction xs arbitrary: ys)
  case Nil
  then show ?case by (cases ys) auto
next
  case (Cons x xs)
  then show ?case by (cases ys) auto
qed

lemma stage_failure_general:
  assumes tb: "traced Pb body" and tc: "traced teardown_call cleanup"
    and run: "try_except_finally body h cleanup w = (r, w')"
    and lg: "log w' = log w @ pre @ Failed c e # post"
    and pre: "list_all is_done pre" and c: "\<not> teardown_call c"
  shows "list_all (\<lambda>ev. teardown_call (call_of ev)) post \<and> isl r
     \<and> (list_all is_done post \<longrightarrow> r = Inl (h e))
     \<and> (\<forall>c2 e2. Failed c2 e2 \<in> set post \<longrightarrow> r = Inl e2 \<and> last post = Failed c2 e2)"
proof -
  from try_except_finally_traced [OF tb tc run] obtain evs1 evs2 rb and rc :: "exn + unit" where
    lg2: "log w' = log w @ evs1 @ evs2"
    and t2: "list_all (\<lambda>ev. teardown_call (call_of ev)) evs2"
    and sb: "case rb of Inr v \<Rightarrow> list_all is_done evs1
         | Inl e \<Rightarrow> \<exists>pre c. evs1 = pre @ [Failed c e] \<and> list_all is_done pre"
    and sc: "case rc of Inr v \<Rightarrow> list_all is_done evs2
         | Inl e \<Rightarrow> \<exists>pre c. evs2 = pre @ [Failed c e] \<and> list_all is_done pre"
    and r: "r = (case rc of Inl e2 \<Rightarrow> Inl e2
             | Inr u \<Rightarrow> (case rb of Inl e \<Rightarrow> Inl (h e) | Inr v \<Rightarrow> Inr v))"
    by blast
  from lg lg2 have eq: "evs1 @ evs2 = pre @ Failed c e # post" by simp
  have mem: "Failed c e \<in> set (evs1 @ evs2)" unfolding eq by simp
  show ?thesis
  proof (cases rb)
    case (Inr v)
    with sb have "list_all is_done evs1" by simp
    with mem have "Failed c e \<in> set evs2" by (auto simp: list_all_iff)
    with t2 have "teardown_call c" by (auto simp: list_all_iff)
    with c show ?thesis by simp
  next
    case (Inl e1)
    with sb obtain pre1 c1 where evs1: "evs1 = pre1 @ [Failed c1 e1]" and p1: "list_all is_done pre1"
      by auto
    from eq evs1 have "pre1 @ Failed c1 e1 # evs2 = pre @ Failed c e # post" by simp
    from first_failure_unique [OF p1 pre this] have same: "e1 = e" "evs2 = post" by simp_all
    show ?thesis
    proof (cases rc)
      case (Inr u)
      with sc have "list_all is_done post" by (simp add: same)
      then have "\<forall>c2 e2. Failed c2 e2 \<notin> set post" by (auto simp: list_all_iff)
      with t2 r Inl Inr same show ?thesis by simp
    next
      case (Inl e')
      with sc obtain pre2 c' where post: "post = pre2 @ [Failed c' e']" and p2: "list_all is_done pre2"
        by (auto simp: same)
      have "\<not> list_all is_done post" by (simp add: post)
      moreover have "\<forall>c2 e2. Failed c2 e2 \<in> set post \<longrightarrow> e2 = e' \<and> last post = Failed c2 e2"
        using p2 by (auto simp: post list_all_iff)
      ultimately show ?thesis using t2 r Inl same by simp
    qed
  qed
qed

lemma stage_failure_run:
  assumes run: "run_endpoint ep env filename lang w = (r, w')"
    and lg: "log w' = log w @ pre @ Failed c e # post"
    and pre: "list_all is_done pre" and c: "\<not> teardown_call c"
  shows "list_all (\<lambda>ev. teardown_call (call_of ev)) post \<and> isl r
     \<and> (list_all is_done post \<longrightarrow> r = Inl (handler_of ep e))
     \<and> (\<forall>c2 e2. Failed c2 e2 \<in> set post \<longrightarrow> r = Inl e2 \<and> last post = Failed c2 e2)"
proof (cases "global_whisper_model env")
  case None
  with run have "w' = w" by (cases ep) (simp_all add: run_endpoint_def upload_audio_file_def
        generate_subtitles_def video_translate_def)
  with lg show ?thesis by simp
next
  case wh: (Some whisper)
  show ?thesis
  proof (cases "global_translator env")
    case None
    with run wh have "w' = w" by (cases ep) (simp_all add: run_endpoint_def upload_audio_file_def
          generate_subtitles_def video_translate_def)
    with lg show ?thesis by simp
  next
    case tr: (Some translate)
    show ?thesis
    proof (cases ep)
      case UploadAudio
      with run wh tr have "try_except_finally (upload_audio_body env whisper translate filename)
          upload_audio_handler (upload_audio_cleanup env filename) w = (r, w')"
        by (simp add: run_endpoint_def upload_audio_file_def)
      from stage_failure_general [OF traced_upload_audio_body traced_upload_audio_cleanup
          this lg pre c]
      show ?thesis by (simp add: handler_of_def UploadAudio)
    next
      case GenerateSubtitles
      let ?w = "w\<lparr>clip := None, clip_open := False\<rparr>"
      from run wh tr GenerateSubtitles
      have "try_except_finally (generate_subtitles_body env whisper translate filename lang)
          generate_subtitles_handler (generate_subtitles_cleanup env filename) ?w = (r, w')"
        by (simp add: run_endpoint_def generate_subtitles_def)
      moreover have "log w' = log ?w @ pre @ Failed c e # post" using lg by simp
      ultimately show ?thesis
        using stage_failure_general [OF traced_generate_subtitles_body
            traced_generate_subtitles_cleanup _ _ pre c]
        by (simp add: handler_of_def GenerateSubtitles)
    next
      case VideoTranslate
      let ?w = "w\<lparr>clip := None, clip_open := False\<rparr>"
      from run wh tr VideoTranslate
      have "try_except_finally (video_translate_body env whisper translate filename lang)
          video_translate_handler (video_translate_cleanup env filename) ?w = (r, w')"
        by (simp add: run_endpoint_def video_translate_def)
      moreover have "log w' = log ?w @ pre @ Failed c e # post" using lg by simp
      ultimately show ?thesis
        using stage_failure_general [OF traced_video_translate_body
            traced_video_translate_cleanup _ _ pre c]
        by (simp add: handler_of_def VideoTranslate)
    qed
  qed
qed

section \<open>Runs in the example environments\<close>

lemma talk_paths:
  assumes "uuid4 env = ''1b4e28ba-2fa1-41d2-883f-0016d3cca427''"
  shows "upload_path env ''talk.mp4'' ''mp4'' = ''uploads/1b4e28ba-2fa1-41d2-883f-0016d3cca427.mp4''"
    and "audio_path_of env ''talk.mp4'' = ''uploads/1b4e28ba-2fa1-41d2-883f-0016d3cca427.mp3''"
    and "tts_path_of env ''talk.mp4'' = ''uploads/1b4e28ba-2fa1-41d2-883f-0016d3cca427_tts.mp3''"
    and "srt_filename_of env ''talk.mp4'' ''mp4'' = ''1b4e28ba-2fa1-41d2-883f-0016d3cca427.srt''"
    and "srt_path_of env ''talk.mp4'' ''mp4'' = ''uploads/1b4e28ba-2fa1-41d2-883f-0016d3cca427.srt''"
    and "output_filename_of env ''talk.mp4'' = ''1b4e28ba-2fa1-41d2-883f-0016d3cca427_translated.mp4''"
    and "output_path_of env ''talk.mp4'' = ''uploads/1b4e28ba-2fa1-41d2-883f-0016d3cca427_translated.mp4''"
  by (simp_all add: upload_path_def audio_path_of_def tts_path_of_def srt_filename_of_def
      srt_path_of_def output_filename_of_def output_path_of_def unique_filename_def
      file_extension_def after_last_dot_def before_last_dot_def path_join_def UPLOAD_DIR_def assms)

lemma uuid_examples:
  "uuid4 env_ok = ''1b4e28ba-2fa1-41d2-883f-0016d3cca427''"
  "uuid4 env_whisper_fails = ''1b4e28ba-2fa1-41d2-883f-0016d3cca427''"
  "uuid4 env_translate_fails = ''1b4e28ba-2fa1-41d2-883f-0016d3cca427''"
  "uuid4 env_locked = ''1b4e28ba-2fa1-41d2-883f-0016d3cca427''"
  by (simp_all add: env_ok_def env_whisper_fails_def env_translate_fails_def env_locked_def)

lemma log_world0: "log world0 = []"
  by (simp add: world0_def)

lemmas io_defs = bind_def ret_def ext_call_def write_media_def open_video_clip_def
  open_audio_clip_def close_clip_def remove_file_def remove_if_exists_def close_if_clip_def
  run_generate_srt_def try_except_finally_def

lemma video_translate_whisper_fails:
  "video_translate env_whisper_fails ''talk.mp4'' ''fr'' world0 =
     (Inl (HTTPException 500
        ''Video translation failed: timed out. Ensure FFmpeg is installed and in your system's PATH.''),
      world0\<lparr>log :=
        [Done (SaveUpload ''uploads/1b4e28ba-2fa1-41d2-883f-0016d3cca427.mp4''),
         Done (OpenVideoClip ''uploads/1b4e28ba-2fa1-41d2-883f-0016d3cca427.mp4''),
         Done (WriteAudio ''uploads/1b4e28ba-2fa1-41d2-883f-0016d3cca427.mp3''),
         Failed (Transcribe ''uploads/1b4e28ba-2fa1-41d2-883f-0016d3cca427.mp3'')
           (Exception ''timed out''),
         Done CloseClip,
         Done (RemoveFile ''uploads/1b4e28ba-2fa1-41d2-883f-0016d3cca427.mp4''),
         Done (RemoveFile ''uploads/1b4e28ba-2fa1-41d2-883f-0016d3cca427.mp3'')],
        clip := Some \<lparr>v_source = ''uploads/1b4e28ba-2fa1-41d2-883f-0016d3cca427.mp4'',
                      v_duration = 10\<rparr>\<rparr>)"
  unfolding video_translate_def video_translate_body_def video_translate_cleanup_def
    video_translate_handler_def Let_def talk_paths [OF uuid_examples(2)]
  by (simp add: io_defs env_whisper_fails_def env_ok_def world0_def fun_eq_iff)

lemma video_translate_translate_fails:
  "video_translate env_translate_fails ''talk.mp4'' ''fr'' world0 =
     (Inl (HTTPException 500
        ''Video translation failed: timed out. Ensure FFmpeg is installed and in your system's PATH.''),
      world0\<lparr>log :=
        [Done (SaveUpload ''uploads/1b4e28ba-2fa1-41d2-883f-0016d3cca427.mp4''),
         Done (OpenVideoClip ''uploads/1b4e28ba-2fa1-41d2-883f-0016d3cca427.mp4''),
         Done (WriteAudio ''uploads/1b4e28ba-2fa1-41d2-883f-0016d3cca427.mp3''),
         Done (Transcribe ''uploads/1b4e28ba-2fa1-41d2-883f-0016d3cca427.mp3''),
         Failed (Translate '' Hello there world'' ''fr'') (Exception ''timed out''),
         Done CloseClip,
         Done (RemoveFile ''uploads/1b4e28ba-2fa1-41d2-883f-0016d3cca427.mp4''),
         Done (RemoveFile ''uploads/1b4e28ba-2fa1-41d2-883f-0016d3cca427.mp3'')],
        clip := Some \<lparr>v_source = ''uploads/1b4e28ba-2fa1-41d2-883f-0016d3cca427.mp4'', v_duration = 10\<rparr>\<rparr>)"
  unfolding video_translate_def video_translate_body_def video_translate_cleanup_def
    video_translate_handler_def Let_def talk_paths [OF uuid_examples(3)]
  by (simp add: io_defs env_translate_fails_def env_ok_def world0_def fun_eq_iff)

lemma video_translate_locked:
  "video_translate env_locked ''talk.mp4'' ''fr'' world0 =
     (Inl (Exception ''Permission denied''),
      world0\<lparr>files := [''uploads/1b4e28ba-2fa1-41d2-883f-0016d3cca427.mp4'' \<mapsto> Media, ''uploads/1b4e28ba-2fa1-41d2-883f-0016d3cca427.mp3'' \<mapsto> Media],
        log :=
        [Done (SaveUpload ''uploads/1b4e28ba-2fa1-41d2-883f-0016d3cca427.mp4''),
         Done (OpenVideoClip ''uploads/1b4e28ba-2fa1-41d2-883f-0016d3cca427.mp4''),
         Done (WriteAudio ''uploads/1b4e28ba-2fa1-41d2-883f-0016d3cca427.mp3''),
         Failed (Transcribe ''uploads/1b4e28ba-2fa1-41d2-883f-0016d3cca427.mp3'') (Exception ''timed out''),
         Done CloseClip,
         Failed (RemoveFile ''uploads/1b4e28ba-2fa1-41d2-883f-0016d3cca427.mp4'') (Exception ''Permission denied'')],
        clip := Some \<lparr>v_source = ''uploads/1b4e28ba-2fa1-41d2-883f-0016d3cca427.mp4'', v_duration = 10\<rparr>\<rparr>)"
  unfolding video_translate_def video_translate_body_def video_translate_cleanup_def
    video_translate_handler_def Let_def talk_paths [OF uuid_examples(4)]
  by (simp add: io_defs env_locked_def env_whisper_fails_def env_ok_def world0_def)

section \<open>Stage failures and release failures\<close>

text \<open>
  C3. The claim as stated fails: the error that reaches the caller carries the text of
  the exception, not the stage. A transcription that times out and a translation that
  times out give the same result.
\<close>

theorem failure_does_not_name_stage:
  "fst (run_endpoint VideoTranslate env_whisper_fails ''talk.mp4'' ''fr'' world0)
     = fst (run_endpoint VideoTranslate env_translate_fails ''talk.mp4'' ''fr'' world0)
   \<and> Failed (Transcribe ''uploads/1b4e28ba-2fa1-41d2-883f-0016d3cca427.mp3'') (Exception ''timed out'')
       \<in> set (log (snd (run_endpoint VideoTranslate env_whisper_fails ''talk.mp4'' ''fr'' world0)))
   \<and> Failed (Translate '' Hello there world'' ''fr'') (Exception ''timed out'')
       \<in> set (log (snd (run_endpoint VideoTranslate env_translate_fails ''talk.mp4'' ''fr'' world0)))"
  by (simp add: run_endpoint_def video_translate_whisper_fails video_translate_translate_fails)

text \<open>
  C3, amended. When a call of a stage fails (the first failure of the run, and not a
  release action), every call after it is a release action of the \<open>finally\<close> block, so no
  later stage runs; the run ends in an error, never in a response; and when the release
  actions succeed that error is the endpoint's \<open>HTTPException\<close> with status 500 whose
  detail carries the text of the exception.
\<close>

theorem stage_failure_halts:
  assumes "run_endpoint ep env filename lang w = (r, w')"
    and "log w' = log w @ pre @ Failed c e # post"
    and "list_all is_done pre" and "\<not> teardown_call c"
  shows "list_all (\<lambda>ev. teardown_call (call_of ev)) post \<and> isl r
     \<and> (list_all is_done post \<longrightarrow> r = Inl (handler_of ep e))"
  using stage_failure_run [OF assms] by blast

theorem stage_failure_halts_witness:
  "list_all (\<lambda>ev. teardown_call (call_of ev))
     [Done CloseClip, Done (RemoveFile ''uploads/1b4e28ba-2fa1-41d2-883f-0016d3cca427.mp4''), Done (RemoveFile ''uploads/1b4e28ba-2fa1-41d2-883f-0016d3cca427.mp3'')]
   \<and> fst (run_endpoint VideoTranslate env_whisper_fails ''talk.mp4'' ''fr'' world0)
       = Inl (handler_of VideoTranslate (Exception ''timed out''))"
proof -
  let ?run = "run_endpoint VideoTranslate env_whisper_fails ''talk.mp4'' ''fr'' world0"
  have run: "?run = (fst ?run, snd ?run)" by simp
  have lg: "log (snd ?run) = log world0
      @ [Done (SaveUpload ''uploads/1b4e28ba-2fa1-41d2-883f-0016d3cca427.mp4''), Done (OpenVideoClip ''uploads/1b4e28ba-2fa1-41d2-883f-0016d3cca427.mp4''),
         Done (WriteAudio ''uploads/1b4e28ba-2fa1-41d2-883f-0016d3cca427.mp3'')]
      @ Failed (Transcribe ''uploads/1b4e28ba-2fa1-41d2-883f-0016d3cca427.mp3'') (Exception ''timed out'')
      # [Done CloseClip, Done (RemoveFile ''uploads/1b4e28ba-2fa1-41d2-883f-0016d3cca427.mp4''),
         Done (RemoveFile ''uploads/1b4e28ba-2fa1-41d2-883f-0016d3cca427.mp3'')]"
    by (simp add: run_endpoint_def video_translate_whisper_fails log_world0)
  have pre: "list_all is_done
      [Done (SaveUpload ''uploads/1b4e28ba-2fa1-41d2-883f-0016d3cca427.mp4''), Done (OpenVideoClip ''uploads/1b4e28ba-2fa1-41d2-883f-0016d3cca427.mp4''),
       Done (WriteAudio ''uploads/1b4e28ba-2fa1-41d2-883f-0016d3cca427.mp3'')]"
    by simp
  have c: "\<not> teardown_call (Transcribe ''uploads/1b4e28ba-2fa1-41d2-883f-0016d3cca427.mp3'')"
    by (simp add: teardown_call_def)
  from stage_failure_halts [OF run lg pre c] show ?thesis by simp
qed

text \<open>
  C2. The claim as stated fails: when transcription has failed and \<open>os.remove\<close> of the
  saved upload raises, the run ends with the exception of \<open>os.remove\<close>, not with the
  error of the transcription, and the extracted audio file is never removed.
\<close>

theorem release_failure_masks_stage_error:
  "fst (run_endpoint VideoTranslate env_locked ''talk.mp4'' ''fr'' world0)
     = Inl (Exception ''Permission denied'')
   \<and> files (snd (run_endpoint VideoTranslate env_locked ''talk.mp4'' ''fr'' world0))
       ''uploads/1b4e28ba-2fa1-41d2-883f-0016d3cca427.mp3'' = Some Media
   \<and> log (snd (run_endpoint VideoTranslate env_locked ''talk.mp4'' ''fr'' world0))
     = [Done (SaveUpload ''uploads/1b4e28ba-2fa1-41d2-883f-0016d3cca427.mp4''),
        Done (OpenVideoClip ''uploads/1b4e28ba-2fa1-41d2-883f-0016d3cca427.mp4''),
        Done (WriteAudio ''uploads/1b4e28ba-2fa1-41d2-883f-0016d3cca427.mp3''),
        Failed (Transcribe ''uploads/1b4e28ba-2fa1-41d2-883f-0016d3cca427.mp3'') (Exception ''timed out''),
        Done CloseClip,
        Failed (RemoveFile ''uploads/1b4e28ba-2fa1-41d2-883f-0016d3cca427.mp4'') (Exception ''Permission denied'')]"
  by (simp add: run_endpoint_def video_translate_locked log_world0)

text \<open>
  C2, amended. After a stage has failed, the run reports that stage's error (as the
  endpoint's \<open>HTTPException\<close> with status 500) when every release action of the \<open>finally\<close>
  block succeeds. When a release action raises, its exception is the result of the run
  and it is the last call of the run.
\<close>

theorem release_failure_after_stage_failure:
  assumes "run_endpoint ep env filename lang w = (r, w')"
    and "log w' = log w @ pre @ Failed c e # post"
    and "list_all is_done pre" and "\<not> teardown_call c"
  shows "(list_all is_done post \<longrightarrow> r = Inl (handler_of ep e))
     \<and> (\<forall>c2 e2. Failed c2 e2 \<in> set post \<longrightarrow> r = Inl e2 \<and> last post = Failed c2 e2)"
  using stage_failure_run [OF assms] by blast

theorem release_failure_after_stage_failure_witness:
  "fst (run_endpoint VideoTranslate env_translate_fails ''talk.mp4'' ''fr'' world0)
     = Inl (handler_of VideoTranslate (Exception ''timed out''))
   \<and> fst (run_endpoint VideoTranslate env_locked ''talk.mp4'' ''fr'' world0)
     = Inl (Exception ''Permission denied'')
   \<and> last [Done CloseClip, Failed (RemoveFile ''uploads/1b4e28ba-2fa1-41d2-883f-0016d3cca427.mp4'') (Exception ''Permission denied'')]
     = Failed (RemoveFile ''uploads/1b4e28ba-2fa1-41d2-883f-0016d3cca427.mp4'') (Exception ''Permission denied'')"
proof -
  let ?a = "run_endpoint VideoTranslate env_translate_fails ''talk.mp4'' ''fr'' world0"
  let ?b = "run_endpoint VideoTranslate env_locked ''talk.mp4'' ''fr'' world0"
  have run_a: "?a = (fst ?a, snd ?a)" and run_b: "?b = (fst ?b, snd ?b)" by simp_all
  have lg_a: "log (snd ?a) = log world0
      @ [Done (SaveUpload ''uploads/1b4e28ba-2fa1-41d2-883f-0016d3cca427.mp4''), Done (OpenVideoClip ''uploads/1b4e28ba-2fa1-41d2-883f-0016d3cca427.mp4''),
         Done (WriteAudio ''uploads/1b4e28ba-2fa1-41d2-883f-0016d3cca427.mp3''), Done (Transcribe ''uploads/1b4e28ba-2fa1-41d2-883f-0016d3cca427.mp3'')]
      @ Failed (Translate '' Hello there world'' ''fr'') (Exception ''timed out'')
      # [Done CloseClip, Done (RemoveFile ''uploads/1b4e28ba-2fa1-41d2-883f-0016d3cca427.mp4''),
         Done (RemoveFile ''uploads/1b4e28ba-2fa1-41d2-883f-0016d3cca427.mp3'')]"
    by (simp add: run_endpoint_def video_translate_translate_fails log_world0)
  have lg_b: "log (snd ?b) = log world0
      @ [Done (SaveUpload ''uploads/1b4e28ba-2fa1-41d2-883f-0016d3cca427.mp4''), Done (OpenVideoClip ''uploads/1b4e28ba-2fa1-41d2-883f-0016d3cca427.mp4''),
         Done (WriteAudio ''uploads/1b4e28ba-2fa1-41d2-883f-0016d3cca427.mp3'')]
      @ Failed (Transcribe ''uploads/1b4e28ba-2fa1-41d2-883f-0016d3cca427.mp3'') (Exception ''timed out'')
      # [Done CloseClip, Failed (RemoveFile ''uploads/1b4e28ba-2fa1-41d2-883f-0016d3cca427.mp4'') (Exception ''Permission denied'')]"
    by (simp add: run_endpoint_def video_translate_locked log_world0)
  have a: "fst ?a = Inl (handler_of VideoTranslate (Exception ''timed out''))"
    using release_failure_after_stage_failure [OF run_a lg_a] by (simp add: teardown_call_def)
  have b: "fst ?b = Inl (Exception ''Permission denied'')
      \<and> last [Done CloseClip, Failed (RemoveFile ''uploads/1b4e28ba-2fa1-41d2-883f-0016d3cca427.mp4'') (Exception ''Permission denied'')]
        = Failed (RemoveFile ''uploads/1b4e28ba-2fa1-41d2-883f-0016d3cca427.mp4'') (Exception ''Permission denied'')"
    using release_failure_after_stage_failure [OF run_b lg_b] by (simp add: teardown_call_def)
  from a b show ?thesis by blast
qed

section \<open>The remux step\<close>

lemma fit_audio_cases:
  assumes "0 \<le> v_duration c"
  shows "fit_audio a c
    = Inr (a\<lparr>a_duration := (if v_duration c < a_duration a then v_duration c else a_duration a)\<rparr>)"
  using assms by (simp add: fit_audio_def subclip_def)

lemma video_translate_prefix:
  assumes "save_result env = Written" "open_clip_result env = Inr D"
    "write_audio_result env = Written" "whisper ap = Inr result"
    "translate (tr_text result) lang = Inr translated" "tts_result env = Written"
    "open_audio_result env = Inr A" "0 \<le> D"
  shows "bind (write_media (SaveUpload vp) vp (save_result env)) (\<lambda>u1.
      bind (open_video_clip env vp) (\<lambda>c.
      bind (write_media (WriteAudio ap) ap (write_audio_result env)) (\<lambda>u2.
      bind (ext_call (Transcribe ap) (whisper ap)) (\<lambda>result.
      bind (ext_call (Translate (tr_text result) lang) (translate (tr_text result) lang))
        (\<lambda>translated.
      bind (write_media (TtsSave translated lang tp) tp (tts_result env)) (\<lambda>u3.
      bind (open_audio_clip env tp) (\<lambda>new_audio.
      bind (ext_call FitAudio (fit_audio new_audio c)) (\<lambda>fitted.
      k c result translated fitted)))))))) ws
    = k \<lparr>v_source = vp, v_duration = D\<rparr> result translated
        \<lparr>a_source = tp, a_offset = 0, a_duration = (if D < A then D else A)\<rparr>
        (ws\<lparr>clip := Some \<lparr>v_source = vp, v_duration = D\<rparr>, clip_open := True,
            files := (files ws)(vp \<mapsto> Media, ap \<mapsto> Media, tp \<mapsto> Media),
            log := log ws @
              [Done (SaveUpload vp), Done (OpenVideoClip vp), Done (WriteAudio ap),
               Done (Transcribe ap), Done (Translate (tr_text result) lang),
               Done (TtsSave translated lang tp), Done (OpenAudioClip tp), Done FitAudio]\<rparr>)"
  by (simp add: bind_def write_media_def open_video_clip_def ext_call_def open_audio_clip_def
      fit_audio_cases assms)

lemma write_media_event:
  "\<exists>ev. call_of ev = c \<and> log (snd (write_media c p r w)) = log w @ [ev]"
  by (cases r) (simp_all add: write_media_def)

lemma bind_first_event:
  assumes "log (snd (m w)) = log w @ [ev]" and "\<And>x. traced P (f x)"
  shows "\<exists>rest. log (snd (bind m f w)) = log w @ ev # rest"
proof (cases "m w")
  case (Pair r w1)
  with assms(1) have l: "log w1 = log w @ [ev]" by simp
  show ?thesis
  proof (cases r)
    case (Inl e)
    with Pair l show ?thesis by (simp add: bind_def)
  next
    case (Inr x)
    obtain r2 w2 where f: "f x w1 = (r2, w2)" by (cases "f x w1")
    from tracedD [OF assms(2) f] obtain evs where "log w2 = log w1 @ evs" by blast
    with Pair Inr f l show ?thesis by (simp add: bind_def)
  qed
qed

lemma try_except_finally_log:
  assumes "traced P cleanup"
  shows "\<exists>evs. log (snd (try_except_finally body h cleanup w)) = log (snd (body w)) @ evs"
proof -
  obtain rb w1 where b: "body w = (rb, w1)" by (cases "body w")
  obtain rc w2 where c: "cleanup w1 = (rc, w2)" by (cases "cleanup w1")
  from tracedD [OF assms c] obtain evs where "log w2 = log w1 @ evs" by blast
  with b c show ?thesis by (cases rc) (simp_all add: try_except_finally_def)
qed

text \<open>
  C4. On every run of \<open>video_translate\<close> that gets as far as the remux step, with a video
  of duration \<open>D\<close> (not negative) and a synthesized speech of duration \<open>A\<close>: the call
  that follows the eight calls of the earlier stages is the writing of the output video,
  and the audio set on it is the speech file from its start, cut to the duration \<open>D\<close>
  when \<open>A > D\<close> and left at its own duration \<open>A\<close> otherwise, neither looped nor padded.
\<close>

theorem remux_truncates_audio:
  assumes "global_whisper_model env = Some whisper" "global_translator env = Some translate"
    and "save_result env = Written" "open_clip_result env = Inr D"
    and "write_audio_result env = Written" "whisper (audio_path_of env filename) = Inr result"
    and "translate (tr_text result) lang = Inr translated" "tts_result env = Written"
    and "open_audio_result env = Inr A" "0 \<le> D"
  shows "\<exists>ev rest.
     call_of ev = WriteVideo (output_path_of env filename)
        \<lparr>a_source = tts_path_of env filename, a_offset = 0,
         a_duration = (if D < A then D else A)\<rparr>
     \<and> log (snd (video_translate env filename lang w)) = log w @
         [Done (SaveUpload (upload_path env filename ''mp4'')),
          Done (OpenVideoClip (upload_path env filename ''mp4'')),
          Done (WriteAudio (audio_path_of env filename)),
          Done (Transcribe (audio_path_of env filename)),
          Done (Translate (tr_text result) lang),
          Done (TtsSave translated lang (tts_path_of env filename)),
          Done (OpenAudioClip (tts_path_of env filename)),
          Done FitAudio] @ ev # rest"
proof -
  let ?w0 = "w\<lparr>clip := None, clip_open := False\<rparr>"
  let ?vp = "upload_path env filename ''mp4''"
  let ?ap = "audio_path_of env filename"
  let ?tp = "tts_path_of env filename"
  let ?op = "output_path_of env filename"
  let ?fit = "\<lparr>a_source = ?tp, a_offset = 0, a_duration = (if D < A then D else A)\<rparr>"
  let ?pre = "[Done (SaveUpload ?vp), Done (OpenVideoClip ?vp), Done (WriteAudio ?ap),
      Done (Transcribe ?ap), Done (Translate (tr_text result) lang),
      Done (TtsSave translated lang ?tp), Done (OpenAudioClip ?tp), Done FitAudio]"
  let ?w8 = "?w0\<lparr>clip := Some \<lparr>v_source = ?vp, v_duration = D\<rparr>, clip_open := True,
      files := (files ?w0)(?vp \<mapsto> Media, ?ap \<mapsto> Media, ?tp \<mapsto> Media),
      log := log ?w0 @ ?pre\<rparr>"
  let ?rest = "\<lambda>u4 :: unit.
      bind (ext_call CloseFinalClip
              (case close_final_result env of None \<Rightarrow> Inr () | Some e \<Rightarrow> Inl e)) (\<lambda>u5.
      bind (ext_call CloseNewAudio
              (case close_audio_result env of None \<Rightarrow> Inr () | Some e \<Rightarrow> Inl e)) (\<lambda>u6.
      ret (JSONResponse
             [(''message'', ''Translated video created!''),
              (''translated_text'', translated),
              (''output_file_url'', ''/uploads/'' @ output_filename_of env filename)] 200)))"
  let ?body = "video_translate_body env whisper translate filename lang"
  have body: "?body ?w0 = bind (write_media (WriteVideo ?op ?fit) ?op (write_video_result env)) ?rest ?w8"
    unfolding video_translate_body_def Let_def
    by (rule video_translate_prefix [where env = env and D = D and A = A and ap = ?ap
          and whisper = whisper and translate = translate and result = result
          and translated = translated and lang = lang and ws = ?w0, OF assms(3-10),
          where vp = ?vp and tp = ?tp and
          k = "\<lambda>c result translated fitted.
            bind (write_media (WriteVideo ?op fitted) ?op (write_video_result env)) (\<lambda>u4.
            bind (ext_call CloseFinalClip
                   (case close_final_result env of None \<Rightarrow> Inr () | Some e \<Rightarrow> Inl e)) (\<lambda>u5.
            bind (ext_call CloseNewAudio
                   (case close_audio_result env of None \<Rightarrow> Inr () | Some e \<Rightarrow> Inl e)) (\<lambda>u6.
            ret (JSONResponse
                  [(''message'', ''Translated video created!''),
                   (''translated_text'', translated),
                   (''output_file_url'', ''/uploads/'' @ output_filename_of env filename)]
                  200))))"])
  from write_media_event [of "WriteVideo ?op ?fit" ?op "write_video_result env" ?w8]
  obtain ev where ev: "call_of ev = WriteVideo ?op ?fit"
    and l1: "log (snd (write_media (WriteVideo ?op ?fit) ?op (write_video_result env) ?w8))
      = log ?w8 @ [ev]"
    by blast
  have tr: "\<And>x. traced (\<lambda>c. True) (?rest x)"
    by (intro traced_intros) simp_all
  from bind_first_event [where m = "write_media (WriteVideo ?op ?fit) ?op (write_video_result env)"
      and w = ?w8 and f = ?rest and P = "\<lambda>c. True", OF l1 tr] obtain rest where
    l2: "log (snd (?body ?w0)) = log ?w8 @ ev # rest"
    unfolding body by blast
  from try_except_finally_log [OF traced_video_translate_cleanup,
      of ?body video_translate_handler env filename ?w0]
  obtain evs where l3: "log (snd (try_except_finally ?body video_translate_handler
      (video_translate_cleanup env filename) ?w0)) = log (snd (?body ?w0)) @ evs"
    by blast
  have vt: "video_translate env filename lang w = try_except_finally ?body video_translate_handler
      (video_translate_cleanup env filename) ?w0"
    by (simp add: video_translate_def assms(1,2))
  have "log (snd (video_translate env filename lang w)) = log w @ ?pre @ ev # (rest @ evs)"
    unfolding vt l3 l2 by simp
  with ev show ?thesis by blast
qed

theorem remux_truncates_audio_witness:
  "(\<exists>ev rest.
     call_of ev = WriteVideo ''uploads/1b4e28ba-2fa1-41d2-883f-0016d3cca427_translated.mp4''
        \<lparr>a_source = ''uploads/1b4e28ba-2fa1-41d2-883f-0016d3cca427_tts.mp3'', a_offset = 0, a_duration = 10\<rparr>
     \<and> log (snd (video_translate env_ok ''talk.mp4'' ''fr'' world0)) =
         [Done (SaveUpload ''uploads/1b4e28ba-2fa1-41d2-883f-0016d3cca427.mp4''),
          Done (OpenVideoClip ''uploads/1b4e28ba-2fa1-41d2-883f-0016d3cca427.mp4''),
          Done (WriteAudio ''uploads/1b4e28ba-2fa1-41d2-883f-0016d3cca427.mp3''),
          Done (Transcribe ''uploads/1b4e28ba-2fa1-41d2-883f-0016d3cca427.mp3''),
          Done (Translate '' Hello there world'' ''fr''),
          Done (TtsSave ''[fr]  Hello there world'' ''fr'' ''uploads/1b4e28ba-2fa1-41d2-883f-0016d3cca427_tts.mp3''),
          Done (OpenAudioClip ''uploads/1b4e28ba-2fa1-41d2-883f-0016d3cca427_tts.mp3''),
          Done FitAudio] @ ev # rest)
   \<and> (\<exists>ev rest.
     call_of ev = WriteVideo ''uploads/1b4e28ba-2fa1-41d2-883f-0016d3cca427_translated.mp4''
        \<lparr>a_source = ''uploads/1b4e28ba-2fa1-41d2-883f-0016d3cca427_tts.mp3'', a_offset = 0, a_duration = 7\<rparr>
     \<and> log (snd (video_translate (env_ok\<lparr>open_audio_result := Inr 7\<rparr>) ''talk.mp4'' ''fr''
            world0)) =
         [Done (SaveUpload ''uploads/1b4e28ba-2fa1-41d2-883f-0016d3cca427.mp4''),
          Done (OpenVideoClip ''uploads/1b4e28ba-2fa1-41d2-883f-0016d3cca427.mp4''),
          Done (WriteAudio ''uploads/1b4e28ba-2fa1-41d2-883f-0016d3cca427.mp3''),
          Done (Transcribe ''uploads/1b4e28ba-2fa1-41d2-883f-0016d3cca427.mp3''),
          Done (Translate '' Hello there world'' ''fr''),
          Done (TtsSave ''[fr]  Hello there world'' ''fr'' ''uploads/1b4e28ba-2fa1-41d2-883f-0016d3cca427_tts.mp3''),
          Done (OpenAudioClip ''uploads/1b4e28ba-2fa1-41d2-883f-0016d3cca427_tts.mp3''),
          Done FitAudio] @ ev # rest)"
proof -
  let ?whisper = "\<lambda>p :: path. Inr \<lparr>tr_text = '' Hello there world'',
      tr_segments = hello_segments\<rparr> :: exn + transcription"
  let ?translate = "\<lambda>text dest :: string. Inr (''['' @ dest @ ''] '' @ text) :: exn + string"
  let ?short = "env_ok\<lparr>open_audio_result := Inr 7\<rparr>"
  have u: "uuid4 ?short = ''1b4e28ba-2fa1-41d2-883f-0016d3cca427''" by (simp add: env_ok_def)
  have a: "global_whisper_model env_ok = Some ?whisper" "global_translator env_ok = Some ?translate"
    "save_result env_ok = Written" "open_clip_result env_ok = Inr 10"
    "write_audio_result env_ok = Written" "tts_result env_ok = Written"
    "open_audio_result env_ok = Inr 12"
    by (simp_all add: env_ok_def)
  have b: "global_whisper_model ?short = Some ?whisper" "global_translator ?short = Some ?translate"
    "save_result ?short = Written" "open_clip_result ?short = Inr 10"
    "write_audio_result ?short = Written" "tts_result ?short = Written"
    "open_audio_result ?short = Inr 7"
    by (simp_all add: env_ok_def)
  have r: "?whisper p = Inr \<lparr>tr_text = '' Hello there world'', tr_segments = hello_segments\<rparr>"
    for p by simp
  have t: "?translate (tr_text \<lparr>tr_text = '' Hello there world'', tr_segments = hello_segments\<rparr>)
      ''fr'' = Inr ''[fr]  Hello there world''"
    by simp
  have d: "(0::rat) \<le> 10" by simp
  from remux_truncates_audio [OF a(1,2,3,4,5) r t a(6,7) d, of "''talk.mp4''" world0]
  have 1: "\<exists>ev rest.
     call_of ev = WriteVideo ''uploads/1b4e28ba-2fa1-41d2-883f-0016d3cca427_translated.mp4''
        \<lparr>a_source = ''uploads/1b4e28ba-2fa1-41d2-883f-0016d3cca427_tts.mp3'', a_offset = 0, a_duration = 10\<rparr>
     \<and> log (snd (video_translate env_ok ''talk.mp4'' ''fr'' world0)) =
         [Done (SaveUpload ''uploads/1b4e28ba-2fa1-41d2-883f-0016d3cca427.mp4''),
          Done (OpenVideoClip ''uploads/1b4e28ba-2fa1-41d2-883f-0016d3cca427.mp4''),
          Done (WriteAudio ''uploads/1b4e28ba-2fa1-41d2-883f-0016d3cca427.mp3''),
          Done (Transcribe ''uploads/1b4e28ba-2fa1-41d2-883f-0016d3cca427.mp3''),
          Done (Translate '' Hello there world'' ''fr''),
          Done (TtsSave ''[fr]  Hello there world'' ''fr'' ''uploads/1b4e28ba-2fa1-41d2-883f-0016d3cca427_tts.mp3''),
          Done (OpenAudioClip ''uploads/1b4e28ba-2fa1-41d2-883f-0016d3cca427_tts.mp3''),
          Done FitAudio] @ ev # rest"
    by (simp add: talk_paths [OF uuid_examples(1)] log_world0)
  from remux_truncates_audio [OF b(1,2,3,4,5) r t b(6,7) d, of "''talk.mp4''" world0]
  have 2: "\<exists>ev rest.
     call_of ev = WriteVideo ''uploads/1b4e28ba-2fa1-41d2-883f-0016d3cca427_translated.mp4''
        \<lparr>a_source = ''uploads/1b4e28ba-2fa1-41d2-883f-0016d3cca427_tts.mp3'', a_offset = 0, a_duration = 7\<rparr>
     \<and> log (snd (video_translate ?short ''talk.mp4'' ''fr'' world0)) =
         [Done (SaveUpload ''uploads/1b4e28ba-2fa1-41d2-883f-0016d3cca427.mp4''),
          Done (OpenVideoClip ''uploads/1b4e28ba-2fa1-41d2-883f-0016d3cca427.mp4''),
          Done (WriteAudio ''uploads/1b4e28ba-2fa1-41d2-883f-0016d3cca427.mp3''),
          Done (Transcribe ''uploads/1b4e28ba-2fa1-41d2-883f-0016d3cca427.mp3''),
          Done (Translate '' Hello there world'' ''fr''),
          Done (TtsSave ''[fr]  Hello there world'' ''fr'' ''uploads/1b4e28ba-2fa1-41d2-883f-0016d3cca427_tts.mp3''),
          Done (OpenAudioClip ''uploads/1b4e28ba-2fa1-41d2-883f-0016d3cca427_tts.mp3''),
          Done FitAudio] @ ev # rest"
    by (simp add: talk_paths [OF u] log_world0)
  from 1 2 show ?thesis by (rule conjI)
qed

lemma write_entries_hello: "write_entries 1 hello_segments [] = (Inr (), hello_srt)"
  by code_simp

lemma generate_srt_hello:
  "generate_srt None hello_segments p fs = (Inr (), fs(p \<mapsto> SrtText hello_srt))"
  unfolding generate_srt_def write_entries_hello by simp

lemma generate_subtitles_en:
  "fst (generate_subtitles env_ok ''talk.mp4'' ''en'' world0) =
     Inr (JSONResponse
       [(''message'', ''Subtitles generated successfully!''),
        (''transcription'', '' Hello there world''),
        (''subtitles'', '' Hello there world''),
        (''subtitle_file_url'', ''/uploads/1b4e28ba-2fa1-41d2-883f-0016d3cca427.srt'')] 200)"
  "log (snd (generate_subtitles env_ok ''talk.mp4'' ''en'' world0)) =
     [Done (SaveUpload ''uploads/1b4e28ba-2fa1-41d2-883f-0016d3cca427.mp4''),
      Done (OpenVideoClip ''uploads/1b4e28ba-2fa1-41d2-883f-0016d3cca427.mp4''),
      Done (WriteAudio ''uploads/1b4e28ba-2fa1-41d2-883f-0016d3cca427.mp3''),
      Done CloseClip,
      Done (Transcribe ''uploads/1b4e28ba-2fa1-41d2-883f-0016d3cca427.mp3''),
      Done (GenerateSrt ''uploads/1b4e28ba-2fa1-41d2-883f-0016d3cca427.srt''),
      Done CloseClip,
      Done (RemoveFile ''uploads/1b4e28ba-2fa1-41d2-883f-0016d3cca427.mp4''),
      Done (RemoveFile ''uploads/1b4e28ba-2fa1-41d2-883f-0016d3cca427.mp3'')]"
  unfolding generate_subtitles_def generate_subtitles_body_def generate_subtitles_cleanup_def
    generate_subtitles_handler_def Let_def talk_paths [OF uuid_examples(1)]
  by (simp_all add: io_defs env_ok_def world0_def generate_srt_hello)

lemma generate_subtitles_fr:
  "fst (generate_subtitles env_ok ''talk.mp4'' ''fr'' world0) =
     Inr (JSONResponse
       [(''message'', ''Subtitles generated successfully!''),
        (''transcription'', '' Hello there world''),
        (''subtitles'', ''[fr]  Hello there world''),
        (''subtitle_file_url'', ''/uploads/1b4e28ba-2fa1-41d2-883f-0016d3cca427.srt'')] 200)"
  "files (snd (generate_subtitles env_ok ''talk.mp4'' ''fr'' world0)) ''uploads/1b4e28ba-2fa1-41d2-883f-0016d3cca427.srt''
     = Some (SrtText hello_srt)"
  unfolding generate_subtitles_def generate_subtitles_body_def generate_subtitles_cleanup_def
    generate_subtitles_handler_def Let_def talk_paths [OF uuid_examples(1)]
  by (simp_all add: io_defs env_ok_def world0_def generate_srt_hello)

section \<open>Release of the temporary resources\<close>

lemma keeps_ret: "keeps I (ret x)"
  by (simp add: keeps_def ret_def)

lemma keeps_bind:
  assumes "keeps I m" "\<And>x. keeps I (f x)"
  shows "keeps I (bind m f)"
  unfolding keeps_def
proof (intro allI impI)
  fix w assume "I w"
  with assms(1) have 1: "I (snd (m w))" by (simp add: keeps_def)
  show "I (snd (bind m f w))"
  proof (cases "m w")
    case (Pair r w1)
    with 1 have w1: "I w1" by simp
    show ?thesis
    proof (cases r)
      case (Inl e)
      with Pair w1 show ?thesis by (simp add: bind_def)
    next
      case (Inr x)
      from assms(2) [of x] w1 have "I (snd (f x w1))" by (simp add: keeps_def)
      with Pair Inr show ?thesis by (simp add: bind_def)
    qed
  qed
qed

lemma keeps_if: "keeps I a \<Longrightarrow> keeps I b \<Longrightarrow> keeps I (if c then a else b)"
  by simp

lemma keeps_ext_call: "keeps clip_inv (ext_call c r)"
  by (cases r) (simp_all add: keeps_def clip_inv_def ext_call_def)

lemma keeps_write_media: "keeps clip_inv (write_media c p r)"
  by (cases r) (simp_all add: keeps_def clip_inv_def write_media_def)

lemma keeps_open_video_clip: "keeps clip_inv (open_video_clip env p)"
  by (cases "open_clip_result env") (simp_all add: keeps_def clip_inv_def open_video_clip_def)

lemma keeps_open_audio_clip: "keeps clip_inv (open_audio_clip env p)"
  unfolding open_audio_clip_def by (rule keeps_ext_call)

lemma keeps_close_clip: "keeps clip_inv (close_clip r)"
  by (cases r) (simp_all add: keeps_def clip_inv_def close_clip_def)

lemma keeps_run_generate_srt: "keeps clip_inv (run_generate_srt env segments p)"
  by (simp add: keeps_def clip_inv_def run_generate_srt_def split: prod.splits sum.splits)

lemmas keeps_intros =
  keeps_bind keeps_ret keeps_if keeps_ext_call keeps_write_media keeps_open_video_clip
  keeps_open_audio_clip keeps_close_clip keeps_run_generate_srt

lemma keeps_generate_subtitles_body:
  "keeps clip_inv (generate_subtitles_body env whisper translate filename lang)"
  unfolding generate_subtitles_body_def Let_def by (intro keeps_intros)

lemma keeps_video_translate_body:
  "keeps clip_inv (video_translate_body env whisper translate filename lang)"
  unfolding video_translate_body_def Let_def by (intro keeps_intros)

lemma keeps_True: "keeps (\<lambda>w. True) m"
  by (simp add: keeps_def)

text \<open>The \<open>finally\<close> blocks when no release action raises.\<close>

lemma remove_if_exists_ok:
  assumes "remove_result env p = None"
  shows "remove_if_exists env p w =
     (Inr (), if files w p \<noteq> None
              then w\<lparr>files := (files w)(p := None), log := log w @ [Done (RemoveFile p)]\<rparr>
              else w)"
  using assms by (simp add: remove_if_exists_def remove_file_def)

lemma close_if_clip_ok:
  assumes "cleanup_close_result env = None"
  shows "close_if_clip env w =
     (Inr (), if clip w \<noteq> None
              then w\<lparr>log := log w @ [Done CloseClip], clip_open := False\<rparr>
              else w)"
  using assms by (simp add: close_if_clip_def close_clip_def)

lemma upload_audio_cleanup_ok:
  assumes rel: "\<forall>p. remove_result env p = None"
  shows "\<exists>evs2 w2. upload_audio_cleanup env filename w1 = (Inr (), w2)
     \<and> log w2 = log w1 @ evs2
     \<and> files w2 (upload_path env filename ''mp3'') = None
     \<and> (\<forall>p. count_list evs2 (Done (RemoveFile p)) \<le> 1)
     \<and> (\<forall>p e. Failed (RemoveFile p) e \<notin> set evs2)"
  using rel by (simp add: upload_audio_cleanup_def remove_if_exists_ok)

lemma generate_subtitles_cleanup_ok:
  assumes rel: "cleanup_close_result env = None" "\<forall>p. remove_result env p = None"
    and inv: "clip_inv w1"
  shows "\<exists>evs2 w2. generate_subtitles_cleanup env filename w1 = (Inr (), w2)
     \<and> log w2 = log w1 @ evs2
     \<and> (files w2 (upload_path env filename ''mp4'') = None
         \<and> files w2 (audio_path_of env filename) = None \<and> \<not> clip_open w2)
     \<and> (\<forall>p. count_list evs2 (Done (RemoveFile p)) \<le> 1)
     \<and> (\<forall>p e. Failed (RemoveFile p) e \<notin> set evs2)"
  using rel inv
  by (auto simp: generate_subtitles_cleanup_def bind_def remove_if_exists_ok close_if_clip_ok
      clip_inv_def)

lemma video_translate_cleanup_ok:
  assumes rel: "cleanup_close_result env = None" "\<forall>p. remove_result env p = None"
    and inv: "clip_inv w1"
  shows "\<exists>evs2 w2. video_translate_cleanup env filename w1 = (Inr (), w2)
     \<and> log w2 = log w1 @ evs2
     \<and> (files w2 (upload_path env filename ''mp4'') = None
         \<and> files w2 (audio_path_of env filename) = None
         \<and> files w2 (tts_path_of env filename) = None \<and> \<not> clip_open w2)
     \<and> (\<forall>p. count_list evs2 (Done (RemoveFile p)) \<le> 1)
     \<and> (\<forall>p e. Failed (RemoveFile p) e \<notin> set evs2)"
  using rel inv
  by (auto simp: video_translate_cleanup_def bind_def remove_if_exists_ok close_if_clip_ok
      clip_inv_def)

lemma released_general:
  assumes tb: "traced (\<lambda>c. \<not> is_remove c) body" and kb: "keeps I body" and inv0: "I w0"
    and cl: "\<And>w1. I w1 \<Longrightarrow> \<exists>evs2 w2. cleanup w1 = (Inr (), w2) \<and> log w2 = log w1 @ evs2
        \<and> Q w2 \<and> (\<forall>p. count_list evs2 (Done (RemoveFile p)) \<le> 1)
        \<and> (\<forall>p e. Failed (RemoveFile p) e \<notin> set evs2)"
    and run: "try_except_finally body h cleanup w0 = (r, w')"
  shows "Q w'
     \<and> (\<forall>p. count_list (drop (length (log w0)) (log w')) (Done (RemoveFile p)) \<le> 1)
     \<and> (\<forall>p e. Failed (RemoveFile p) e \<notin> set (drop (length (log w0)) (log w')))"
proof -
  obtain rb w1 where b: "body w0 = (rb, w1)" by (cases "body w0")
  from kb inv0 b have "I w1" by (auto simp: keeps_def)
  from cl [OF this] obtain evs2 w2 where c: "cleanup w1 = (Inr (), w2)"
    and l2: "log w2 = log w1 @ evs2" and q: "Q w2"
    and cnt: "\<forall>p. count_list evs2 (Done (RemoveFile p)) \<le> 1"
    and nf: "\<forall>p e. Failed (RemoveFile p) e \<notin> set evs2"
    by blast
  from tracedD [OF tb b] obtain evs1 where l1: "log w1 = log w0 @ evs1"
    and p1: "list_all (\<lambda>ev. \<not> is_remove (call_of ev)) evs1"
    by blast
  from run b c have w': "w' = w2" by (simp add: try_except_finally_def)
  have dr: "drop (length (log w0)) (log w2) = evs1 @ evs2" by (simp add: l2 l1)
  have none1: "\<And>p. Done (RemoveFile p) \<notin> set evs1" "\<And>p e. Failed (RemoveFile p) e \<notin> set evs1"
    using p1 by (auto simp: list_all_iff)
  then have zero: "\<And>p. count_list evs1 (Done (RemoveFile p)) = 0"
    by (simp add: count_list_0_iff)
  show ?thesis unfolding w' dr using cnt nf none1 zero q by simp
qed

text \<open>
  C1. The claim as stated fails twice over. On a successful run of
  \<open>generate_subtitles\<close> the clip is closed twice, at line 276 and again in the \<open>finally\<close>
  block. And when \<open>os.remove\<close> of the saved upload raises, the extracted audio file is
  not removed at all.
\<close>

theorem clip_closed_twice_and_audio_left:
  "count_list (log (snd (run_endpoint GenerateSubtitles env_ok ''talk.mp4'' ''en'' world0)))
      (Done CloseClip) = 2
   \<and> \<not> isl (fst (run_endpoint GenerateSubtitles env_ok ''talk.mp4'' ''en'' world0))
   \<and> files (snd (run_endpoint VideoTranslate env_locked ''talk.mp4'' ''fr'' world0))
       ''uploads/1b4e28ba-2fa1-41d2-883f-0016d3cca427.mp3'' = Some Media"
  by (simp add: run_endpoint_def video_translate_locked generate_subtitles_en)

text \<open>
  C1, amended. On every run past the model checks in which no release action of the
  \<open>finally\<close> block raises, when the run returns, on success and on every failure of a
  stage: none of the run's temporary files (saved upload, extracted audio, TTS audio)
  exists, the clip opened by \<open>generate_subtitles\<close> or \<open>video_translate\<close> is closed, and no
  file was removed by more than one \<open>os.remove\<close>.
\<close>

theorem temp_resources_released:
  assumes run: "run_endpoint ep env filename lang w = (r, w')"
    and models: "global_whisper_model env \<noteq> None" "global_translator env \<noteq> None"
    and rel: "cleanup_close_result env = None" "\<forall>p. remove_result env p = None"
  shows "(\<forall>p \<in> set (temp_paths ep env filename). files w' p = None)
     \<and> (ep \<noteq> UploadAudio \<longrightarrow> \<not> clip_open w')
     \<and> (\<forall>p. count_list (drop (length (log w)) (log w')) (Done (RemoveFile p)) \<le> 1)
     \<and> (\<forall>p e. Failed (RemoveFile p) e \<notin> set (drop (length (log w)) (log w')))"
proof -
  from models obtain whisper translate where
    wh: "global_whisper_model env = Some whisper" and tr: "global_translator env = Some translate"
    by auto
  show ?thesis
  proof (cases ep)
    case UploadAudio
    with run wh tr have "try_except_finally (upload_audio_body env whisper translate filename)
        upload_audio_handler (upload_audio_cleanup env filename) w = (r, w')"
      by (simp add: run_endpoint_def upload_audio_file_def)
    from released_general [OF traced_upload_audio_body keeps_True TrueI
        upload_audio_cleanup_ok [OF rel(2)] this]
    show ?thesis by (simp add: temp_paths_def UploadAudio)
  next
    case GenerateSubtitles
    let ?w = "w\<lparr>clip := None, clip_open := False\<rparr>"
    have inv0: "clip_inv ?w" by (simp add: clip_inv_def)
    from run wh tr GenerateSubtitles
    have "try_except_finally (generate_subtitles_body env whisper translate filename lang)
        generate_subtitles_handler (generate_subtitles_cleanup env filename) ?w = (r, w')"
      by (simp add: run_endpoint_def generate_subtitles_def)
    from released_general [OF traced_generate_subtitles_body keeps_generate_subtitles_body inv0
        generate_subtitles_cleanup_ok [OF rel] this]
    show ?thesis by (simp add: temp_paths_def GenerateSubtitles)
  next
    case VideoTranslate
    let ?w = "w\<lparr>clip := None, clip_open := False\<rparr>"
    have inv0: "clip_inv ?w" by (simp add: clip_inv_def)
    from run wh tr VideoTranslate
    have "try_except_finally (video_translate_body env whisper translate filename lang)
        video_translate_handler (video_translate_cleanup env filename) ?w = (r, w')"
      by (simp add: run_endpoint_def video_translate_def)
    from released_general [OF traced_video_translate_body keeps_video_translate_body inv0
        video_translate_cleanup_ok [OF rel] this]
    show ?thesis by (simp add: temp_paths_def VideoTranslate)
  qed
qed

theorem temp_resources_released_witness:
  "files (snd (run_endpoint VideoTranslate env_translate_fails ''talk.mp4'' ''fr'' world0))
      ''uploads/1b4e28ba-2fa1-41d2-883f-0016d3cca427.mp4'' = None
   \<and> files (snd (run_endpoint VideoTranslate env_translate_fails ''talk.mp4'' ''fr'' world0))
      ''uploads/1b4e28ba-2fa1-41d2-883f-0016d3cca427.mp3'' = None
   \<and> files (snd (run_endpoint VideoTranslate env_translate_fails ''talk.mp4'' ''fr'' world0))
      ''uploads/1b4e28ba-2fa1-41d2-883f-0016d3cca427_tts.mp3'' = None
   \<and> \<not> clip_open (snd (run_endpoint VideoTranslate env_translate_fails ''talk.mp4'' ''fr'' world0))"
proof -
  let ?run = "run_endpoint VideoTranslate env_translate_fails ''talk.mp4'' ''fr'' world0"
  have run: "?run = (fst ?run, snd ?run)" by simp
  have models: "global_whisper_model env_translate_fails \<noteq> None"
    "global_translator env_translate_fails \<noteq> None"
    by (simp_all add: env_translate_fails_def env_ok_def)
  have rel: "cleanup_close_result env_translate_fails = None"
    "\<forall>p. remove_result env_translate_fails p = None"
    by (simp_all add: env_translate_fails_def env_ok_def)
  from temp_resources_released [OF run models rel] show ?thesis
    by (simp add: temp_paths_def talk_paths [OF uuid_examples(3)])
qed

section \<open>What generate_subtitles returns and leaves\<close>

lemma bind_Inr:
  "bind m f w = (Inr r, w') \<longleftrightarrow> (\<exists>x w1. m w = (Inr x, w1) \<and> f x w1 = (Inr r, w'))"
  by (cases "m w") (auto simp: bind_def split: sum.splits)

lemma ret_Inr: "ret x w = (Inr y, w1) \<longleftrightarrow> y = x \<and> w1 = w"
  by (auto simp: ret_def)

lemma ext_call_Inr:
  "ext_call c r w = (Inr v, w1) \<longleftrightarrow> r = Inr v \<and> w1 = w\<lparr>log := log w @ [Done c]\<rparr>"
  by (cases r) (auto simp: ext_call_def)

lemma write_media_Inr:
  "write_media c p r w = (Inr x, w1) \<longleftrightarrow>
     r = Written \<and> w1 = w\<lparr>files := (files w)(p \<mapsto> Media), log := log w @ [Done c]\<rparr>"
  by (cases r) (auto simp: write_media_def)

lemma open_video_clip_Inr:
  "open_video_clip env p w = (Inr c, w1) \<longleftrightarrow>
     (\<exists>d. open_clip_result env = Inr d \<and> c = \<lparr>v_source = p, v_duration = d\<rparr>
        \<and> w1 = w\<lparr>log := log w @ [Done (OpenVideoClip p)],
                  clip := Some \<lparr>v_source = p, v_duration = d\<rparr>, clip_open := True\<rparr>)"
  by (cases "open_clip_result env") (auto simp: open_video_clip_def)

lemma close_clip_Inr:
  "close_clip r w = (Inr x, w1) \<longleftrightarrow>
     r = None \<and> w1 = w\<lparr>log := log w @ [Done CloseClip], clip_open := False\<rparr>"
  by (cases r) (auto simp: close_clip_def)

lemma generate_srt_Inr:
  "generate_srt open_err segments p fs = (Inr x, fs') \<longleftrightarrow>
     open_err = None
     \<and> (\<exists>content. write_entries 1 segments [] = (Inr (), content)
           \<and> fs' = fs(p \<mapsto> SrtText content))"
  by (cases open_err; cases "write_entries 1 segments []") (auto simp: generate_srt_def)

lemma run_generate_srt_Inr:
  "run_generate_srt env segments p w = (Inr x, w1) \<longleftrightarrow>
     (\<exists>fs. generate_srt (srt_open_result env) segments p (files w) = (Inr (), fs)
        \<and> w1 = w\<lparr>files := fs, log := log w @ [Done (GenerateSrt p)]\<rparr>)"
  by (cases "generate_srt (srt_open_result env) segments p (files w)")
    (auto simp: run_generate_srt_def split: sum.splits)

lemma generate_subtitles_body_ok:
  assumes "generate_subtitles_body env whisper translate filename lang w0 = (Inr r, w1)"
  shows "\<exists>result subs content.
     whisper (audio_path_of env filename) = Inr result
     \<and> write_entries 1 (tr_segments result) [] = (Inr (), content)
     \<and> files w1 (srt_path_of env filename ''mp4'') = Some (SrtText content)
     \<and> field r ''transcription'' = Some (tr_text result)
     \<and> field r ''subtitles'' = Some subs
     \<and> (if lang \<noteq> ''en'' then translate (tr_text result) lang = Inr subs
         else subs = tr_text result)"
  using assms
  by (auto simp: generate_subtitles_body_def Let_def bind_Inr ret_Inr ext_call_Inr
      write_media_Inr open_video_clip_Inr close_clip_Inr run_generate_srt_Inr generate_srt_Inr
      split: if_splits)

lemma generate_subtitles_cleanup_other_files:
  assumes "generate_subtitles_cleanup env filename w1 = (rc, w2)"
    and "p \<noteq> upload_path env filename ''mp4''" "p \<noteq> audio_path_of env filename"
  shows "files w2 p = files w1 p"
  using assms
  by (auto simp: generate_subtitles_cleanup_def bind_def remove_if_exists_def remove_file_def
      close_if_clip_def close_clip_def split: sum.splits option.splits prod.splits if_splits)

text \<open>
  C10. On every run of \<open>generate_subtitles\<close> that returns a response, whatever the target
  language: the subtitle file holds the entries written from the segments of the
  transcription as Whisper returned them, the field \<open>transcription\<close> is the transcribed
  text, and the field \<open>subtitles\<close> is the translator's result for that text when the
  language is not \<open>en\<close> and the transcribed text itself otherwise. The subtitle file is
  read at its own path, distinct from the two temporary files.
\<close>

theorem srt_file_from_original_segments:
  assumes run: "generate_subtitles env filename lang w = (Inr r, w')"
    and distinct: "srt_path_of env filename ''mp4'' \<noteq> upload_path env filename ''mp4''"
      "srt_path_of env filename ''mp4'' \<noteq> audio_path_of env filename"
  shows "\<exists>whisper translate result subs content.
     global_whisper_model env = Some whisper \<and> global_translator env = Some translate
     \<and> whisper (audio_path_of env filename) = Inr result
     \<and> write_entries 1 (tr_segments result) [] = (Inr (), content)
     \<and> files w' (srt_path_of env filename ''mp4'') = Some (SrtText content)
     \<and> field r ''transcription'' = Some (tr_text result)
     \<and> field r ''subtitles'' = Some subs
     \<and> (if lang \<noteq> ''en'' then translate (tr_text result) lang = Inr subs
         else subs = tr_text result)"
proof -
  let ?w = "w\<lparr>clip := None, clip_open := False\<rparr>"
  from run obtain whisper translate where
    wh: "global_whisper_model env = Some whisper" and tr: "global_translator env = Some translate"
    and t: "try_except_finally (generate_subtitles_body env whisper translate filename lang)
        generate_subtitles_handler (generate_subtitles_cleanup env filename) ?w = (Inr r, w')"
    by (auto simp: generate_subtitles_def split: option.splits)
  obtain rb w1 where b: "generate_subtitles_body env whisper translate filename lang ?w = (rb, w1)"
    by (cases "generate_subtitles_body env whisper translate filename lang ?w")
  obtain rc where c: "generate_subtitles_cleanup env filename w1 = (rc, w')"
    using t b by (auto simp: try_except_finally_def split: prod.splits sum.splits)
  from t b have rb: "rb = Inr r"
    by (auto simp: try_except_finally_def split: prod.splits sum.splits)
  from generate_subtitles_body_ok [OF b [unfolded rb]]
    generate_subtitles_cleanup_other_files [OF c distinct] wh tr
  show ?thesis by auto
qed

theorem srt_file_from_original_segments_witness:
  "files (snd (generate_subtitles env_ok ''talk.mp4'' ''fr'' world0)) ''uploads/1b4e28ba-2fa1-41d2-883f-0016d3cca427.srt''
     = Some (SrtText (snd (write_entries 1 hello_segments [])))
   \<and> field (JSONResponse
       [(''message'', ''Subtitles generated successfully!''),
        (''transcription'', '' Hello there world''),
        (''subtitles'', ''[fr]  Hello there world''),
        (''subtitle_file_url'', ''/uploads/1b4e28ba-2fa1-41d2-883f-0016d3cca427.srt'')] 200) ''transcription''
     = Some '' Hello there world''"
proof -
  let ?run = "generate_subtitles env_ok ''talk.mp4'' ''fr'' world0"
  have run: "?run = (Inr (JSONResponse
       [(''message'', ''Subtitles generated successfully!''),
        (''transcription'', '' Hello there world''),
        (''subtitles'', ''[fr]  Hello there world''),
        (''subtitle_file_url'', ''/uploads/1b4e28ba-2fa1-41d2-883f-0016d3cca427.srt'')] 200), snd ?run)"
    using generate_subtitles_fr(1) by (simp add: prod_eq_iff)
  have distinct:
    "srt_path_of env_ok ''talk.mp4'' ''mp4'' \<noteq> upload_path env_ok ''talk.mp4'' ''mp4''"
    "srt_path_of env_ok ''talk.mp4'' ''mp4'' \<noteq> audio_path_of env_ok ''talk.mp4''"
    by (simp_all add: talk_paths [OF uuid_examples(1)])
  from srt_file_from_original_segments [OF run distinct] obtain whisper result content where
    wh: "global_whisper_model env_ok = Some whisper"
    and res: "whisper (audio_path_of env_ok ''talk.mp4'') = Inr result"
    and we: "write_entries 1 (tr_segments result) [] = (Inr (), content)"
    and f: "files (snd ?run) (srt_path_of env_ok ''talk.mp4'' ''mp4'') = Some (SrtText content)"
    by blast
  from wh have "whisper = (\<lambda>p. Inr \<lparr>tr_text = '' Hello there world'',
      tr_segments = hello_segments\<rparr>)"
    by (simp add: env_ok_def)
  with res have "tr_segments result = hello_segments" by auto
  with we have "content = snd (write_entries 1 hello_segments [])" by simp
  with f show ?thesis by (simp add: talk_paths [OF uuid_examples(1)])
qed

end
